theory Spec2Isabelle
  imports Complex_Main "HOL-Library.Log_Nat"
begin

section \<open>DaviPlata: the editability policy of \<^verbatim>\<open>js/movements.js\<close>\<close>

subsection \<open>Movements as \<^verbatim>\<open>canEditMovement\<close> reads them\<close>

text \<open>
  \<^verbatim>\<open>canEditMovement\<close> reads two properties of a movement object: \<^verbatim>\<open>id\<close> (a UUID
  string) and \<^verbatim>\<open>created_at\<close>, which it always passes through \<^verbatim>\<open>new Date(...)\<close>.
  The record holds the identifier and the time value of that \<^verbatim>\<open>Date\<close>, in
  milliseconds since the epoch. A \<^verbatim>\<open>created_at\<close> that does not parse (an invalid
  \<^verbatim>\<open>Date\<close>, time value \<^verbatim>\<open>NaN\<close>) is outside this type.
\<close>

record movement =
  id_m :: string
  created_at :: int

text \<open>The object literal \<^verbatim>\<open>{ canEdit, reason }\<close> the function returns.\<close>

record edit_check =
  canEdit :: bool
  reason :: string

subsection \<open>Number to string, as a template literal renders an integer\<close>

fun digits :: "nat \<Rightarrow> string" where
  "digits n = (if n < 10 then [''0123456789'' ! n]
               else digits (n div 10) @ [''0123456789'' ! (n mod 10)])"

declare digits.simps [simp del]

definition toString :: "int \<Rightarrow> string" where
  "toString i = (if i < 0 then ''-'' @ digits (nat (- i)) else digits (nat i))"

subsection \<open>The stable sort of \<^verbatim>\<open>Array.prototype.sort\<close>\<close>

text \<open>
  \<^verbatim>\<open>[...allMovements].sort((a, b) => new Date(b.created_at) - new Date(a.created_at))\<close>:
  the comparator is negative when \<^verbatim>\<open>a\<close> is the newer of the two, so \<^verbatim>\<open>a\<close> comes
  first; elements that compare equal keep their order (the sort is stable since
  ECMAScript 2019).
\<close>

definition compareFn :: "movement \<Rightarrow> movement \<Rightarrow> int" where
  "compareFn a b = created_at b - created_at a"

fun insert_sorted :: "('a \<Rightarrow> 'a \<Rightarrow> int) \<Rightarrow> 'a \<Rightarrow> 'a list \<Rightarrow> 'a list" where
  "insert_sorted cmp x [] = [x]"
| "insert_sorted cmp x (y # ys) =
     (if cmp x y \<le> 0 then x # y # ys else y # insert_sorted cmp x ys)"

definition sort_js :: "('a \<Rightarrow> 'a \<Rightarrow> int) \<Rightarrow> 'a list \<Rightarrow> 'a list" where
  "sort_js cmp xs = foldr (insert_sorted cmp) xs []"

subsection \<open>Number arithmetic\<close>

text \<open>
  A \<^verbatim>\<open>-\<close> or a \<^verbatim>\<open>/\<close> on Numbers yields the exact result rounded to the nearest
  binary64 number, ties to even. \<open>binary64\<close> is that rounding: the nearest multiple of
  \<open>2 ^ (e - 52)\<close>, where \<open>2 ^ e\<close> is the greatest power of two not above the magnitude of
  the argument, so that the significand has 53 bits. The exponent is not bounded: the
  quantities computed from the time values of two valid dates are 0 or lie between
  \<open>2 ^ -48\<close> and \<open>2 ^ 54\<close> in magnitude, where binary64 has neither subnormal numbers nor
  overflow.
\<close>

text \<open>\<open>2 ^ k\<close>, for an exponent of either sign.\<close>

definition pow2 :: "int \<Rightarrow> real" where
  "pow2 k = (if 0 \<le> k then 2 ^ nat k else 1 / 2 ^ nat (- k))"

text \<open>The exponent \<open>e\<close> with \<open>2 ^ e \<le> \<bar>x\<bar> < 2 ^ (e + 1)\<close>, for \<open>x\<close> other than 0.\<close>

definition exponent :: "real \<Rightarrow> int" where
  "exponent x = (if 1 \<le> \<bar>x\<bar> then bitlen \<lfloor>\<bar>x\<bar>\<rfloor> - 1 else - bitlen (\<lceil>1 / \<bar>x\<bar>\<rceil> - 1))"

text \<open>The nearest integer; of two equally near, the even one.\<close>

definition roundTiesToEven :: "real \<Rightarrow> int" where
  "roundTiesToEven r =
     (let f = \<lfloor>r\<rfloor> in
      if r - of_int f < 1 / 2 then f
      else if 1 / 2 < r - of_int f then f + 1
      else if even f then f else f + 1)"

definition binary64 :: "real \<Rightarrow> real" where
  "binary64 x =
     (if x = 0 then 0
      else of_int (roundTiesToEven (x / pow2 (exponent x - 52))) * pow2 (exponent x - 52))"

subsection \<open>\<^verbatim>\<open>canEditMovement\<close>\<close>

definition reason_not_found :: string where
  "reason_not_found = ''Movimiento no encontrado''"

definition reason_not_latest :: string where
  "reason_not_latest =
     ''Solo se puede editar el '' @ [CHR 0xFA] @ ''ltimo movimiento registrado''"

definition reason_expired :: string where
  "reason_expired =
     ''Han pasado m'' @ [CHR 0xE1] @ ''s de 30 minutos desde la creaci'' @ [CHR 0xF3] @ ''n''"

text \<open>
  The template literal
  \<^verbatim>\<open>`Puedes editar por ${remainingMinutes} minuto${remainingMinutes !== 1 ? 's' : ''} m..s`\<close>,
  whose last word has an a with acute accent (code unit \<open>0xE1\<close>) as its second letter.
\<close>

definition reason_remaining :: "int \<Rightarrow> string" where
  "reason_remaining remainingMinutes =
     ''Puedes editar por '' @ toString remainingMinutes @ '' minuto''
       @ (if remainingMinutes \<noteq> 1 then ''s'' else '''') @ '' m'' @ [CHR 0xE1] @ ''s''"

text \<open>
  \<^verbatim>\<open>diffMinutes = (now - createdAt) / (1000 * 60)\<close>, with the wall clock \<^verbatim>\<open>now\<close>
  (\<^verbatim>\<open>new Date()\<close>) as a parameter, in milliseconds. The time value of a valid
  \<^verbatim>\<open>Date\<close> is an integer of magnitude at most \<open>8.64e15\<close>, below \<open>2^53\<close>, so it is a
  binary64 number as it stands; the subtraction and the division each round their result.
\<close>

definition diffMinutes :: "movement \<Rightarrow> int \<Rightarrow> real" where
  "diffMinutes m now =
     binary64 (binary64 (real_of_int now - real_of_int (created_at m)) / (1000 * 60))"

text \<open>\<^verbatim>\<open>Math.ceil(30 - diffMinutes)\<close>: the subtraction rounds, the ceiling is exact.\<close>

definition remainingMinutes :: "movement \<Rightarrow> int \<Rightarrow> int" where
  "remainingMinutes m now = \<lceil>binary64 (30 - diffMinutes m now)\<rceil>"

definition latestMovement :: "movement list \<Rightarrow> movement" where
  "latestMovement allMovements = hd (sort_js compareFn allMovements)"

text \<open>
  \<^verbatim>\<open>None\<close> stands for \<^verbatim>\<open>null\<close>/\<^verbatim>\<open>undefined\<close> in either argument;
  \<^verbatim>\<open>sorted[0]\<close> is read only after the length test, on a non-empty array.
\<close>

definition canEditMovement ::
  "movement option \<Rightarrow> movement list option \<Rightarrow> int \<Rightarrow> edit_check" where
  "canEditMovement movement allMovements now =
     (case (movement, allMovements) of
        (None, _) \<Rightarrow> \<lparr>canEdit = False, reason = reason_not_found\<rparr>
      | (_, None) \<Rightarrow> \<lparr>canEdit = False, reason = reason_not_found\<rparr>
      | (Some m, Some ms) \<Rightarrow>
          if length ms = 0 then \<lparr>canEdit = False, reason = reason_not_found\<rparr>
          else if id_m m \<noteq> id_m (latestMovement ms)
            then \<lparr>canEdit = False, reason = reason_not_latest\<rparr>
          else if diffMinutes m now > 30
            then \<lparr>canEdit = False, reason = reason_expired\<rparr>
          else \<lparr>canEdit = True, reason = reason_remaining (remainingMinutes m now)\<rparr>)"

subsection \<open>Reading a count back from a string\<close>

text \<open>
  The number a string of decimal digits denotes, and the strings that are the decimal
  numeral of a natural number: digits only, no leading zero. They state what it is for a
  reason string to embed a count, without reference to how the count is rendered.
\<close>

definition digit_value :: "char \<Rightarrow> int" where
  "digit_value c = int (of_char c) - 48"

definition decimal_value :: "string \<Rightarrow> int" where
  "decimal_value s = foldl (\<lambda>a c. 10 * a + digit_value c) 0 s"

definition is_numeral :: "string \<Rightarrow> bool" where
  "is_numeral s \<longleftrightarrow>
     s \<noteq> [] \<and> list_all (\<lambda>c. c \<in> set ''0123456789'') s
       \<and> (length s = 1 \<or> hd s \<in> set ''123456789'')"

section \<open>The movement lifecycle: persistence and notification calls\<close>

subsection \<open>JavaScript values and objects\<close>

text \<open>
  A property that is absent or holds \<^verbatim>\<open>undefined\<close> is \<open>None\<close>; the code never
  tells the two apart (it tests \<^verbatim>\<open>!== undefined\<close> and truthiness only). Numbers are
  taken exactly; \<^verbatim>\<open>NaN\<close> is outside the type.
\<close>

datatype jsval = JNull | JBool bool | JNum real | JStr string | JObj "(string \<times> jsval) list"

type_synonym obj = "string \<rightharpoonup> jsval"

text \<open>
  The object \<^verbatim>\<open>canEditMovement\<close> returns, property by property: the literal
  \<^verbatim>\<open>{ canEdit: ..., reason: ... }\<close> of each of its \<^verbatim>\<open>return\<close> statements.
\<close>

definition edit_check_object :: "edit_check \<Rightarrow> obj" where
  "edit_check_object r = [''canEdit'' \<mapsto> JBool (canEdit r), ''reason'' \<mapsto> JStr (reason r)]"

text \<open>The fields appended to a \<^verbatim>\<open>FormData\<close>, or the properties of a JSON body, in order.\<close>

type_synonym form = "(string \<times> jsval option) list"

definition truthy :: "jsval option \<Rightarrow> bool" where
  "truthy v = (case v of
       None \<Rightarrow> False
     | Some JNull \<Rightarrow> False
     | Some (JBool b) \<Rightarrow> b
     | Some (JNum x) \<Rightarrow> x \<noteq> 0
     | Some (JStr s) \<Rightarrow> s \<noteq> []
     | Some (JObj kv) \<Rightarrow> True)"

text \<open>\<^verbatim>\<open>a || b\<close>\<close>

definition js_or :: "jsval option \<Rightarrow> jsval option \<Rightarrow> jsval option" where
  "js_or a b = (if truthy a then a else b)"

text \<open>\<^verbatim>\<open>v?.k\<close>: \<^verbatim>\<open>undefined\<close> on \<^verbatim>\<open>null\<close>/\<^verbatim>\<open>undefined\<close> and on a primitive.\<close>

definition opt_prop :: "jsval option \<Rightarrow> string \<Rightarrow> jsval option" where
  "opt_prop v k = (case v of Some (JObj kv) \<Rightarrow> map_of kv k | _ \<Rightarrow> None)"

subsection \<open>The collaborators\<close>

text \<open>
  Every call to a collaborator (the Supabase table, Supabase storage, a webhook, the
  confirmation dialog) and every \<^verbatim>\<open>console.warn\<close>/\<^verbatim>\<open>console.error\<close> is recorded, in
  order, in the trace. Toasts, the loading overlay and \<^verbatim>\<open>console.log\<close> are not
  recorded; \<^verbatim>\<open>loadDashboard\<close> re-reads the table and is recorded as one event.
\<close>

datatype level = Warn | Error

datatype event =
    SelectById string
  | Insert obj
  | Update "jsval option" obj
  | GetStatistics
  | Upload string
  | PostMovement form
  | PostVerify form
  | PostDelete form
  | Confirm
  | Console level
  | LoadDashboard

text \<open>
  The table \<^verbatim>\<open>daviplata_movimientos\<close>, by row id, and the trace so far.
\<close>

record world =
  table :: "string \<rightharpoonup> obj"
  trace :: "event list"

definition emit :: "event \<Rightarrow> world \<Rightarrow> world" where
  "emit e w = w\<lparr>trace := trace w @ [e]\<rparr>"

text \<open>
  What the collaborators answer is an input. Each answer is looked up by the position
  in the trace at which the call is recorded, so every sequence of answers is some
  environment.
\<close>

datatype db_outcome = DbOk | DbError | DbThrows

text \<open>
  What \<^verbatim>\<open>response.json()\<close> does: it rejects with some value, or resolves with
  \<^verbatim>\<open>null\<close>, with a boolean, a number or a string (which have neither an \<^verbatim>\<open>id\<close> nor a
  \<^verbatim>\<open>remoteJid\<close> property), or with an object. And what \<^verbatim>\<open>fetch\<close> does: it rejects
  with some value, or resolves with a response, of which the code reads \<^verbatim>\<open>ok\<close> and
  \<^verbatim>\<open>json()\<close>.
\<close>

datatype json_outcome =
    JsonRejects "jsval option"
  | JsonNull
  | JsonPrimitive
  | JsonObject obj

datatype fetch_outcome =
    Rejects "jsval option"
  | Response bool json_outcome

text \<open>
  What a \<^verbatim>\<open>catch\<close> receives: a \<^verbatim>\<open>TypeError\<close> of the engine (a property read on
  \<^verbatim>\<open>null\<close> or \<^verbatim>\<open>undefined\<close>, a call of something that is not a function), the value
  a webhook call rejected with, or the error of a failed upload. Reading a property of the
  caught value, as \<^verbatim>\<open>error.message\<close> does, throws in turn when the value is \<^verbatim>\<open>null\<close>
  or \<^verbatim>\<open>undefined\<close>.
\<close>

datatype exn = TypeError | Rejected "jsval option" | UploadFailed

fun nullish :: "exn \<Rightarrow> bool" where
  "nullish (Rejected None) = True"
| "nullish (Rejected (Some JNull)) = True"
| "nullish _ = False"

record env =
  client :: bool
  db :: "nat \<Rightarrow> db_outcome"
  http :: "nat \<Rightarrow> fetch_outcome"
  stats :: "nat \<Rightarrow> jsval option option"
  storage :: "nat \<Rightarrow> string option"
  confirmed :: "nat \<Rightarrow> bool"
  new_id :: "nat \<Rightarrow> string"
  column_defaults :: obj
  clock :: "nat \<Rightarrow> string"

text \<open>
  \<^item> \<open>client\<close>: \<^verbatim>\<open>getSupabase()\<close> returns a client (not \<^verbatim>\<open>null\<close>).
  \<^item> \<open>db\<close>: a table call resolves with data, resolves with \<^verbatim>\<open>{ error }\<close>, or rejects.
    Which calls the backend accepts (an update whose payload is empty, a row that breaks
    a constraint or a policy) is the backend's decision, so it belongs here.
  \<^item> \<open>http\<close>: what \<^verbatim>\<open>fetch\<close> does, the values it may reject with included.
  \<^item> \<open>stats\<close>: the \<^verbatim>\<open>balance\<close> property of what \<^verbatim>\<open>getStatistics()\<close> returns
    (\<open>None\<close> when the call throws).
  \<^item> \<open>storage\<close>: the public URL \<^verbatim>\<open>uploadToWebhook\<close> returns (\<open>None\<close> when it throws).
  \<^item> \<open>confirmed\<close>: the answer to \<^verbatim>\<open>showConfirm\<close>.
  \<^item> \<open>new_id\<close>, \<open>column_defaults\<close>: the id and the column defaults the database gives
    an inserted row. The repository's \<^verbatim>\<open>schema.sql\<close> declares no \<^verbatim>\<open>verified\<close>,
    \<^verbatim>\<open>idmessage\<close> or \<^verbatim>\<open>remote_jid\<close> column, so their defaults are a parameter.
  \<^item> \<open>clock\<close>: \<^verbatim>\<open>new Date().toISOString()\<close> and the database's \<^verbatim>\<open>NOW()\<close>.
\<close>

text \<open>The fields of \<^verbatim>\<open>AppState\<close> that the handlers read.\<close>

record app_state =
  isAdmin :: bool
  editingMovementId :: "string option"
  selectedFile :: "string option"
  movements :: "obj list"
  userProfile :: "obj option"

subsection \<open>\<^verbatim>\<open>getMovementById\<close>\<close>

text \<open>
  \<^verbatim>\<open>.eq('id', id).single()\<close> is an error unless exactly one row matches. The joined
  \<^verbatim>\<open>daviplata_usuarios\<close> object of the selection is left out of the row returned: its
  only reader is the movement webhook, which is never given a row from this function.
\<close>

definition getMovementById :: "env \<Rightarrow> string \<Rightarrow> world \<Rightarrow> obj option \<times> world" where
  "getMovementById e ident w =
     (if \<not> client e then (None, w)
      else
        let n = length (trace w); w1 = emit (SelectById ident) w in
        case db e n of
          DbOk \<Rightarrow> (case table w ident of
                     None \<Rightarrow> (None, emit (Console Error) w1)
                   | Some data \<Rightarrow> (Some data, w1))
        | DbError \<Rightarrow> (None, emit (Console Error) w1)
        | DbThrows \<Rightarrow> (None, emit (Console Error) w1))"

subsection \<open>\<^verbatim>\<open>updateMovement\<close>\<close>

definition allowedUpdates :: "obj \<Rightarrow> obj" where
  "allowedUpdates updates =
     (let a0 = Map.empty;
          a1 = (if updates ''monto'' \<noteq> None then a0(''monto'' := updates ''monto'') else a0);
          a2 = (if updates ''motivo'' \<noteq> None then a1(''motivo'' := updates ''motivo'') else a1);
          a3 = (if updates ''comprobante_url'' \<noteq> None
                then a2(''comprobante_url'' := updates ''comprobante_url'') else a2)
      in a3)"

text \<open>
  The row the filter \<^verbatim>\<open>.eq('id', id)\<close> selects: only a string can equal a row's UUID.
\<close>

definition row_id :: "jsval option \<Rightarrow> string option" where
  "row_id ident = (case ident of Some (JStr s) \<Rightarrow> Some s | _ \<Rightarrow> None)"

text \<open>
  A successful update overwrites the columns of the payload and, by the trigger
  \<^verbatim>\<open>update_movimientos_updated_at\<close> of \<^verbatim>\<open>schema.sql\<close>, sets \<^verbatim>\<open>updated_at\<close>.
\<close>

definition updateMovement ::
  "env \<Rightarrow> jsval option \<Rightarrow> obj \<Rightarrow> world \<Rightarrow> obj option \<times> world" where
  "updateMovement e ident updates w =
     (if \<not> client e then (None, w)
      else
        let allowed = allowedUpdates updates;
            n = length (trace w);
            w1 = emit (Update ident allowed) w in
        case db e n of
          DbOk \<Rightarrow>
            (case row_id ident of
               None \<Rightarrow> (None, emit (Console Error) w1)
             | Some k \<Rightarrow>
                (case table w k of
                   None \<Rightarrow> (None, emit (Console Error) w1)
                 | Some row \<Rightarrow>
                    let data = (row ++ allowed)(''updated_at'' \<mapsto> JStr (clock e n))
                    in (Some data, w1\<lparr>table := (table w1)(k \<mapsto> data)\<rparr>)))
        | DbError \<Rightarrow> (None, emit (Console Error) w1)
        | DbThrows \<Rightarrow> (None, emit (Console Error) w1))"

subsection \<open>The webhook notifications\<close>

text \<open>
  Each notification function is one \<^verbatim>\<open>try { ... } catch (error) { console... }\<close>.
  The body is modelled with its exceptions (\<open>Inl\<close>); the function wraps it as the
  \<^verbatim>\<open>catch\<close> does, and an exception thrown inside the \<^verbatim>\<open>catch\<close> escapes to the caller.
\<close>

definition getBalanceAfter :: "env \<Rightarrow> world \<Rightarrow> jsval option \<times> world" where
  "getBalanceAfter e w =
     (let n = length (trace w); w1 = emit GetStatistics w in
      case stats e n of
        None \<Rightarrow> (Some (JNum 0), emit (Console Warn) w1)
      | Some balance \<Rightarrow> (balance, w1))"

definition movementForm :: "env \<Rightarrow> app_state \<Rightarrow> obj \<Rightarrow> jsval option \<Rightarrow> nat \<Rightarrow> form" where
  "movementForm e app movement balanceAfter n =
     (let usuarioNombre =
            js_or (js_or (opt_prop (movement ''daviplata_usuarios'') ''nombre'')
                         (case userProfile app of None \<Rightarrow> None | Some p \<Rightarrow> p ''nombre''))
                  (Some (JStr []));
          usuarioEmail =
            js_or (js_or (opt_prop (movement ''daviplata_usuarios'') ''email'')
                         (case userProfile app of None \<Rightarrow> None | Some p \<Rightarrow> p ''email''))
                  (Some (JStr []))
      in [(''id'', js_or (movement ''id'') (Some (JStr []))),
          (''tipo'', js_or (movement ''tipo'') (Some (JStr []))),
          (''monto'', js_or (movement ''monto'') (Some (JNum 0))),
          (''saldo_despues'', balanceAfter),
          (''motivo'', js_or (movement ''motivo'') (Some (JStr []))),
          (''url'', js_or (movement ''comprobante_url'') (Some (JStr []))),
          (''fecha'', js_or (movement ''fecha'') (Some (JStr (clock e n)))),
          (''usuario_nombre'', usuarioNombre),
          (''usuario_email'', usuarioEmail)]
         @ (if truthy (movement ''remote_jid'')
            then [(''remote_jid'', movement ''remote_jid'')] else []))"

text \<open>
  What \<^verbatim>\<open>{ idmessage: result.id || null, remote_jid: result.remoteJid || null }\<close>
  evaluates to: both properties are always defined.
\<close>

definition correlationUpdates :: "obj \<Rightarrow> obj" where
  "correlationUpdates result =
     Map.empty(''idmessage'' := js_or (result ''id'') (Some JNull),
               ''remote_jid'' := js_or (result ''remoteJid'') (Some JNull))"

text \<open>The body of the \<^verbatim>\<open>try\<close> of \<^verbatim>\<open>notifyMovementWebhook\<close> (the unnamed upload module).\<close>

definition notifyMovementWebhook_try ::
  "env \<Rightarrow> app_state \<Rightarrow> obj option \<Rightarrow> world \<Rightarrow> (exn + unit) \<times> world" where
  "notifyMovementWebhook_try e app movement w =
     (case getBalanceAfter e w of (balanceAfter, w1) \<Rightarrow>
       (case movement of
          None \<Rightarrow> (Inl TypeError, w1)
        | Some m \<Rightarrow>
            (let n = length (trace w1);
                 w2 = emit (PostMovement (movementForm e app m balanceAfter n)) w1 in
              (case http e n of
                 Rejects v \<Rightarrow> (Inl (Rejected v), w2)
               | Response ok body \<Rightarrow>
                   if ok then
                     (case body of
                        JsonRejects v \<Rightarrow> (Inl (Rejected v), w2)
                      | JsonNull \<Rightarrow> (Inl TypeError, w2)
                      | JsonPrimitive \<Rightarrow> (Inr (), w2)
                      | JsonObject result \<Rightarrow>
                          if truthy (result ''id'') \<or> truthy (result ''remoteJid'') then
                            (case updateMovement e (m ''id'') (correlationUpdates result) w2 of
                               (r, w3) \<Rightarrow> (Inr (), w3))
                          else (Inr (), w2))
                   else (Inr (), w2)))))"

text \<open>
  \<^verbatim>\<open>catch (error) { console.warn('Error notificando webhook:', error.message); }\<close>: the
  argument \<^verbatim>\<open>error.message\<close> is evaluated before the warning is written.
\<close>

definition notifyMovementWebhook ::
  "env \<Rightarrow> app_state \<Rightarrow> obj option \<Rightarrow> world \<Rightarrow> (exn + unit) \<times> world" where
  "notifyMovementWebhook e app movement w =
     (case notifyMovementWebhook_try e app movement w of
        (Inl error, w') \<Rightarrow>
          if nullish error then (Inl TypeError, w') else (Inr (), emit (Console Warn) w')
      | (Inr u, w') \<Rightarrow> (Inr u, w'))"

text \<open>
  The older \<^verbatim>\<open>notifyMovementWebhook\<close> of \<^verbatim>\<open>js/upload.js\<close>: a JSON body, posted with
  \<^verbatim>\<open>mode: 'no-cors'\<close>; the response is not read. Its \<^verbatim>\<open>catch\<close> reads
  \<^verbatim>\<open>error.message\<close> as well.
\<close>

definition notifyMovementWebhook_upload_js_try ::
  "env \<Rightarrow> obj option \<Rightarrow> world \<Rightarrow> (exn + unit) \<times> world" where
  "notifyMovementWebhook_upload_js_try e movement w =
     (case movement of
        None \<Rightarrow> (Inl TypeError, w)
      | Some m \<Rightarrow>
          let payload = [(''tipo'', m ''tipo''), (''monto'', m ''monto''),
                         (''motivo'', m ''motivo''),
                         (''url'', js_or (m ''comprobante_url'') (Some JNull))];
              n = length (trace w);
              w1 = emit (PostMovement payload) w in
          (case http e n of
             Rejects v \<Rightarrow> (Inl (Rejected v), w1)
           | Response ok body \<Rightarrow> (Inr (), w1)))"

definition notifyMovementWebhook_upload_js ::
  "env \<Rightarrow> obj option \<Rightarrow> world \<Rightarrow> (exn + unit) \<times> world" where
  "notifyMovementWebhook_upload_js e movement w =
     (case notifyMovementWebhook_upload_js_try e movement w of
        (Inl error, w') \<Rightarrow>
          if nullish error then (Inl TypeError, w') else (Inr (), emit (Console Warn) w')
      | (Inr u, w') \<Rightarrow> (Inr u, w'))"

text \<open>\<^verbatim>\<open>jid.split('@')[0]\<close>\<close>

definition phone_of :: "string \<Rightarrow> string" where
  "phone_of jid = takeWhile (\<lambda>c. c \<noteq> CHR ''@'') jid"

definition verificationForm :: "obj \<Rightarrow> string \<Rightarrow> form" where
  "verificationForm movement jid =
     [(''idmessage'', movement ''idmessage''),
      (''numero_destinatario'', Some (JStr (''+'' @ phone_of jid))),
      (''id_movimiento'', movement ''id''),
      (''monto'', movement ''monto''),
      (''tipo'', movement ''tipo'')]"

text \<open>
  A truthy \<^verbatim>\<open>remote_jid\<close> that is not a string has no \<^verbatim>\<open>split\<close>: a
  \<^verbatim>\<open>TypeError\<close>, inside the \<^verbatim>\<open>try\<close>.
\<close>

definition notifyVerificationWebhook_try ::
  "env \<Rightarrow> obj option \<Rightarrow> world \<Rightarrow> (exn + unit) \<times> world" where
  "notifyVerificationWebhook_try e movement w =
     (case movement of
        None \<Rightarrow> (Inl TypeError, w)
      | Some m \<Rightarrow>
          if \<not> truthy (m ''idmessage'') \<or> \<not> truthy (m ''remote_jid'')
          then (Inr (), emit (Console Warn) w)
          else
            (case m ''remote_jid'' of
               Some (JStr jid) \<Rightarrow>
                 let n = length (trace w);
                     w1 = emit (PostVerify (verificationForm m jid)) w in
                 (case http e n of
                    Rejects v \<Rightarrow> (Inl (Rejected v), w1)
                  | Response ok body \<Rightarrow>
                      if ok then (Inr (), w1) else (Inr (), emit (Console Warn) w1))
             | _ \<Rightarrow> (Inl TypeError, w)))"

text \<open>
  \<^verbatim>\<open>catch (error) { console.error('...', error); }\<close>: the caught value is passed on as it
  is, no property of it is read.
\<close>

definition notifyVerificationWebhook ::
  "env \<Rightarrow> obj option \<Rightarrow> world \<Rightarrow> (exn + unit) \<times> world" where
  "notifyVerificationWebhook e movement w =
     (case notifyVerificationWebhook_try e movement w of
        (Inl error, w') \<Rightarrow> (Inr (), emit (Console Error) w')
      | (Inr u, w') \<Rightarrow> (Inr u, w'))"

definition deletionForm :: "obj \<Rightarrow> form" where
  "deletionForm movement =
     [(''idmessage'', movement ''idmessage''),
      (''numero_destinatario'', movement ''remote_jid''),
      (''id_movimiento'', movement ''id''),
      (''monto'', movement ''monto''),
      (''tipo'', movement ''tipo'')]"

definition notifyDeletionWebhook_try ::
  "env \<Rightarrow> obj option \<Rightarrow> world \<Rightarrow> (exn + unit) \<times> world" where
  "notifyDeletionWebhook_try e movement w =
     (case movement of
        None \<Rightarrow> (Inl TypeError, w)
      | Some m \<Rightarrow>
          if \<not> truthy (m ''idmessage'') \<or> \<not> truthy (m ''remote_jid'')
          then (Inr (), emit (Console Warn) w)
          else
            let n = length (trace w);
                w1 = emit (PostDelete (deletionForm m)) w in
            (case http e n of
               Rejects v \<Rightarrow> (Inl (Rejected v), w1)
             | Response ok body \<Rightarrow> (Inr (), w1)))"

definition notifyDeletionWebhook ::
  "env \<Rightarrow> obj option \<Rightarrow> world \<Rightarrow> (exn + unit) \<times> world" where
  "notifyDeletionWebhook e movement w =
     (case notifyDeletionWebhook_try e movement w of
        (Inl error, w') \<Rightarrow> (Inr (), emit (Console Error) w')
      | (Inr u, w') \<Rightarrow> (Inr u, w'))"

subsection \<open>\<^verbatim>\<open>createMovement\<close>\<close>

text \<open>
  The row passed to \<^verbatim>\<open>.insert([ ... ])\<close>. A property whose value is \<^verbatim>\<open>undefined\<close>
  is dropped when the row is serialised.
\<close>

definition insertRow :: "env \<Rightarrow> obj \<Rightarrow> jsval option \<Rightarrow> nat \<Rightarrow> obj" where
  "insertRow e movement usuarioId n =
     Map.empty(''usuario_id'' := usuarioId,
               ''tipo'' := movement ''tipo'',
               ''monto'' := movement ''monto'',
               ''motivo'' := movement ''motivo'',
               ''comprobante_url'' := js_or (movement ''comprobante_url'') (Some JNull),
               ''fecha'' := js_or (movement ''fecha'') (Some (JStr (clock e n))))"

text \<open>
  A successful insert stores the row over the column defaults, under the id the
  database generates; an id already in the table violates the primary key.
\<close>

definition createMovement ::
  "env \<Rightarrow> app_state \<Rightarrow> obj \<Rightarrow> jsval option \<Rightarrow> world \<Rightarrow> obj option \<times> world" where
  "createMovement e app movement usuarioId w =
     (if \<not> client e then (None, w)
      else
        let n = length (trace w);
            w1 = emit (Insert (insertRow e movement usuarioId n)) w in
        case db e n of
          DbOk \<Rightarrow>
            if table w (new_id e n) \<noteq> None then (None, emit (Console Error) w1)
            else
              let data = (column_defaults e ++ insertRow e movement usuarioId n)
                           (''id'' \<mapsto> JStr (new_id e n));
                  w2 = w1\<lparr>table := (table w1)(new_id e n \<mapsto> data)\<rparr> in
              (case notifyMovementWebhook e app (Some data) w2 of
                 (Inl error, w3) \<Rightarrow> (None, emit (Console Error) w3)
               | (Inr u, w3) \<Rightarrow> (Some data, w3))
        | DbError \<Rightarrow> (None, emit (Console Error) w1)
        | DbThrows \<Rightarrow> (None, emit (Console Error) w1))"

subsection \<open>\<^verbatim>\<open>handleFormSubmit\<close>\<close>

text \<open>
  The values read from the form: the active type button, \<^verbatim>\<open>parseFloat\<close> of the amount
  (\<open>None\<close> for \<^verbatim>\<open>NaN\<close>) and the trimmed reason.
\<close>

record form_input =
  tipo :: "string option"
  monto :: "real option"
  motivo :: "string option"

definition verifiedState :: "app_state \<Rightarrow> jsval" where
  "verifiedState app = JStr (if isAdmin app then ''VERIFICADO'' else ''PENDIENTE'')"

text \<open>The \<^verbatim>\<open>updates\<close> object of the edit branch.\<close>

definition editUpdates :: "app_state \<Rightarrow> real \<Rightarrow> string \<Rightarrow> jsval \<Rightarrow> obj" where
  "editUpdates app x s comprobanteUrl =
     (let updates = [''monto'' \<mapsto> JNum x, ''motivo'' \<mapsto> JStr s,
                     ''verified'' \<mapsto> verifiedState app]
      in if truthy (Some comprobanteUrl)
         then updates(''comprobante_url'' \<mapsto> comprobanteUrl) else updates)"

text \<open>The branch \<^verbatim>\<open>if (isEditing) { ... }\<close>, steps 1 to 4.\<close>

definition editBranch ::
  "env \<Rightarrow> app_state \<Rightarrow> string \<Rightarrow> real \<Rightarrow> string \<Rightarrow> jsval \<Rightarrow> world \<Rightarrow> (exn + unit) \<times> world" where
  "editBranch e app eid x s comprobanteUrl w =
     (case getMovementById e eid w of (oldMovement, w1) \<Rightarrow>
       (case (case oldMovement of
                None \<Rightarrow> (Inr (), w1)
              | Some old \<Rightarrow>
                  if truthy (old ''idmessage'') then notifyDeletionWebhook e (Some old) w1
                  else (Inr (), w1)) of
          (Inl error, w2) \<Rightarrow> (Inl error, w2)
        | (Inr u, w2) \<Rightarrow>
            (case updateMovement e (Some (JStr eid)) (editUpdates app x s comprobanteUrl) w2 of
               (None, w3) \<Rightarrow> (Inr (), w3)
             | (Some updatedData, w3) \<Rightarrow>
                 (case notifyMovementWebhook e app (Some updatedData) w3 of
                    (Inl error, w4) \<Rightarrow> (Inl error, w4)
                  | (Inr u', w4) \<Rightarrow> (Inr (), emit LoadDashboard w4)))))"

text \<open>The \<^verbatim>\<open>else\<close> branch: a new movement.\<close>

definition createBranch ::
  "env \<Rightarrow> app_state \<Rightarrow> string \<Rightarrow> real \<Rightarrow> string \<Rightarrow> jsval \<Rightarrow> world \<Rightarrow> (exn + unit) \<times> world" where
  "createBranch e app t x s comprobanteUrl w =
     (case userProfile app of
        None \<Rightarrow> (Inl TypeError, w)
      | Some profile \<Rightarrow>
          (case createMovement e app
                  [''tipo'' \<mapsto> JStr t, ''monto'' \<mapsto> JNum x, ''motivo'' \<mapsto> JStr s,
                   ''comprobante_url'' \<mapsto> comprobanteUrl, ''verified'' \<mapsto> verifiedState app]
                  (profile ''id'') w of
             (None, w1) \<Rightarrow> (Inr (), w1)
           | (Some movement, w1) \<Rightarrow> (Inr (), emit LoadDashboard w1)))"

definition handleFormSubmit_try ::
  "env \<Rightarrow> app_state \<Rightarrow> string \<Rightarrow> real \<Rightarrow> string \<Rightarrow> world \<Rightarrow> (exn + unit) \<times> world" where
  "handleFormSubmit_try e app t x s w =
     (case (case selectedFile app of
              None \<Rightarrow> (Inr JNull, w)
            | Some name \<Rightarrow>
                (case storage e (length (trace w)) of
                   None \<Rightarrow> (Inl UploadFailed, emit (Upload name) w)
                 | Some url \<Rightarrow> (Inr (JStr url), emit (Upload name) w))) of
        (Inl error, w1) \<Rightarrow> (Inl error, w1)
      | (Inr comprobanteUrl, w1) \<Rightarrow>
          (case editingMovementId app of
             None \<Rightarrow> createBranch e app t x s comprobanteUrl w1
           | Some eid \<Rightarrow>
               if eid \<noteq> [] then editBranch e app eid x s comprobanteUrl w1
               else createBranch e app t x s comprobanteUrl w1))"

definition handleFormSubmit :: "env \<Rightarrow> app_state \<Rightarrow> form_input \<Rightarrow> world \<Rightarrow> world" where
  "handleFormSubmit e app input w =
     (case tipo input of
        None \<Rightarrow> w
      | Some t \<Rightarrow>
          if t = [] then w
          else if t = ''EGRESO'' \<and> \<not> isAdmin app then w
          else
            (case monto input of
               None \<Rightarrow> w
             | Some x \<Rightarrow>
                 if x \<le> 0 then w
                 else
                   (case motivo input of
                      None \<Rightarrow> w
                    | Some s \<Rightarrow>
                        if s = [] then w
                        else
                          (case handleFormSubmit_try e app t x s w of
                             (Inl error, w') \<Rightarrow> emit (Console Error) w'
                           | (Inr u, w') \<Rightarrow> w'))))"

subsection \<open>\<^verbatim>\<open>handleVerifyMovement\<close>\<close>

text \<open>
  \<open>latest\<close> is the handler's \<^verbatim>\<open>latestMovement\<close>: the row as \<^verbatim>\<open>getMovementById\<close>
  has just read it.
\<close>

definition handleVerifyMovement_try ::
  "env \<Rightarrow> string \<Rightarrow> world \<Rightarrow> (exn + unit) \<times> world" where
  "handleVerifyMovement_try e ident w =
     (case getMovementById e ident w of
        (None, w1) \<Rightarrow> (Inr (), w1)
      | (Some latest, w1) \<Rightarrow>
          (case updateMovement e (Some (JStr ident)) [''verified'' \<mapsto> JStr ''VERIFICADO''] w1 of
             (None, w2) \<Rightarrow> (Inr (), w2)
           | (Some success, w2) \<Rightarrow>
               (case (if truthy (latest ''idmessage'')
                          \<and> truthy (latest ''remote_jid'')
                      then notifyVerificationWebhook e (Some latest) w2
                      else (Inr (), emit (Console Warn) w2)) of
                  (Inl error, w3) \<Rightarrow> (Inl error, w3)
                | (Inr u, w3) \<Rightarrow> (Inr (), emit LoadDashboard w3))))"

definition handleVerifyMovement :: "env \<Rightarrow> app_state \<Rightarrow> string \<Rightarrow> world \<Rightarrow> world" where
  "handleVerifyMovement e app ident w =
     (case find (\<lambda>m. m ''id'' = Some (JStr ident)) (movements app) of
        None \<Rightarrow> w
      | Some movement \<Rightarrow>
          if \<not> confirmed e (length (trace w)) then emit Confirm w
          else
            (case handleVerifyMovement_try e ident (emit Confirm w) of
               (Inl error, w') \<Rightarrow> emit (Console Error) w'
             | (Inr u, w') \<Rightarrow> w'))"

subsection \<open>Reading a trace\<close>

text \<open>The events a run added to the trace of the world it started from.\<close>

definition added :: "world \<Rightarrow> world \<Rightarrow> event list" where
  "added w w' = drop (length (trace w)) (trace w')"

text \<open>The calls that write to the ledger or notify a webhook.\<close>

fun is_core :: "event \<Rightarrow> bool" where
  "is_core (Insert p) = True"
| "is_core (Update i p) = True"
| "is_core (PostMovement f) = True"
| "is_core (PostVerify f) = True"
| "is_core (PostDelete f) = True"
| "is_core _ = False"

fun is_PostDelete :: "event \<Rightarrow> bool" where
  "is_PostDelete (PostDelete f) = True"
| "is_PostDelete _ = False"

text \<open>A webhook call that rejects with \<^verbatim>\<open>null\<close> or \<^verbatim>\<open>undefined\<close>.\<close>

fun rejects_nullish :: "fetch_outcome \<Rightarrow> bool" where
  "rejects_nullish (Rejects v) = nullish (Rejected v)"
| "rejects_nullish (Response ok (JsonRejects v)) = nullish (Rejected v)"
| "rejects_nullish (Response ok body) = False"

text \<open>The value a stored movement has in a column, if it is stored and has one.\<close>

definition stored :: "world \<Rightarrow> string \<Rightarrow> string \<Rightarrow> jsval option" where
  "stored w ident column = (case table w ident of None \<Rightarrow> None | Some row \<Rightarrow> row column)"

text \<open>The rows passed to \<^verbatim>\<open>.insert\<close>, in order.\<close>

fun insert_payloads :: "event list \<Rightarrow> obj list" where
  "insert_payloads [] = []"
| "insert_payloads (Insert p # es) = p # insert_payloads es"
| "insert_payloads (ev # es) = insert_payloads es"

subsection \<open>Concrete inputs\<close>

text \<open>
  A stored income of 50, pending, already notified (it has a message id and a chat id),
  and the same movement with the chat id missing.
\<close>

definition row1 :: obj where
  "row1 = [''id'' \<mapsto> JStr ''m1'', ''usuario_id'' \<mapsto> JStr ''u1'', ''tipo'' \<mapsto> JStr ''INGRESO'',
           ''monto'' \<mapsto> JNum 50, ''motivo'' \<mapsto> JStr ''venta'',
           ''verified'' \<mapsto> JStr ''PENDIENTE'',
           ''idmessage'' \<mapsto> JStr ''MSG1'', ''remote_jid'' \<mapsto> JStr ''593999@s.whatsapp.net'']"

definition row2 :: obj where
  "row2 = row1(''remote_jid'' \<mapsto> JNull)"

definition world1 :: world where
  "world1 = \<lparr>table = [''m1'' \<mapsto> row1], trace = []\<rparr>"

definition world2 :: world where
  "world2 = \<lparr>table = [''m1'' \<mapsto> row2], trace = []\<rparr>"

text \<open>What the movement webhook answers when it accepts a notification.\<close>

definition webhook_answer :: obj where
  "webhook_answer = [''id'' \<mapsto> JStr ''MSG2'', ''remoteJid'' \<mapsto> JStr ''593999@s.whatsapp.net'']"

text \<open>
  Every collaborator succeeds; the table gives new rows the id \<^verbatim>\<open>m2\<close> and the
  verification state \<^verbatim>\<open>PENDIENTE\<close> by default.
\<close>

definition env_ok :: env where
  "env_ok = \<lparr>client = True, db = (\<lambda>n. DbOk),
     http = (\<lambda>n. Response True (JsonObject webhook_answer)),
     stats = (\<lambda>n. Some (Some (JNum 150))),
     storage = (\<lambda>n. Some ''https://storage/daviplata/c.jpg''),
     confirmed = (\<lambda>n. True),
     new_id = (\<lambda>n. ''m2''),
     column_defaults = [''verified'' \<mapsto> JStr ''PENDIENTE''],
     clock = (\<lambda>n. ''2024-01-01T00:00:00.000Z'')\<rparr>"

text \<open>
  The same, on the table as \<^verbatim>\<open>schema.sql\<close> declares it: no default for \<^verbatim>\<open>verified\<close>.
\<close>

definition env_plain :: env where
  "env_plain = env_ok\<lparr>column_defaults := Map.empty\<rparr>"

text \<open>
  The same as \<open>env_ok\<close>, with every webhook unreachable: \<^verbatim>\<open>fetch\<close> rejects with a
  \<^verbatim>\<open>TypeError\<close> object, as the Fetch standard has it.
\<close>

definition env_down :: env where
  "env_down = env_ok\<lparr>http := (\<lambda>n. Rejects (Some (JObj [(''name'', JStr ''TypeError''),
     (''message'', JStr ''Failed to fetch'')])))\<rparr>"

text \<open>The same, with a \<^verbatim>\<open>fetch\<close> that rejects with \<^verbatim>\<open>null\<close>.\<close>

definition env_null :: env where
  "env_null = env_ok\<lparr>http := (\<lambda>n. Rejects (Some JNull))\<rparr>"

text \<open>
  The same as \<open>env_ok\<close>, with a table that answers the third call of a run (the update
  of \<^verbatim>\<open>handleVerifyMovement\<close>, after the confirmation and the fresh read) with an error.
\<close>

definition env_strict :: env where
  "env_strict = env_ok\<lparr>db := (\<lambda>n. if n = 2 then DbError else DbOk)\<rparr>"

definition admin :: app_state where
  "admin = \<lparr>isAdmin = True, editingMovementId = None, selectedFile = None,
     movements = [row1], userProfile = Some [''id'' \<mapsto> JStr ''u1'', ''nombre'' \<mapsto> JStr ''Ana'']\<rparr>"

definition editing :: app_state where
  "editing = admin\<lparr>editingMovementId := Some ''m1''\<rparr>"

definition cashier :: app_state where
  "cashier = admin\<lparr>isAdmin := False\<rparr>"

definition form1 :: form_input where
  "form1 = \<lparr>tipo = Some ''INGRESO'', monto = Some 75, motivo = Some ''venta''\<rparr>"

text \<open>An \<^verbatim>\<open>updates\<close> object that asks for more than the three editable fields.\<close>

definition requested :: obj where
  "requested = [''monto'' \<mapsto> JNum 75, ''verified'' \<mapsto> JStr ''VERIFICADO'',
                ''idmessage'' \<mapsto> JStr ''MSG9'', ''remote_jid'' \<mapsto> JStr ''x@s.whatsapp.net'']"

section \<open>Rounding to binary64\<close>

subsection \<open>Powers of two and exponents\<close>

lemma pow2_powr: "pow2 k = 2 powr (real_of_int k)"
  by (simp add: pow2_def powr_real_of_int inverse_eq_divide)

lemma pow2_pos [simp]: "0 < pow2 k"
  by (simp add: pow2_powr)

lemma pow2_add: "pow2 (a + b) = pow2 a * pow2 b"
  by (simp add: pow2_powr powr_add)

lemma pow2_diff: "pow2 (a - b) = pow2 a / pow2 b"
  by (simp add: pow2_powr powr_diff)

lemma pow2_mono: "a \<le> b \<Longrightarrow> pow2 a \<le> pow2 b"
  by (simp add: pow2_powr)

lemma pow2_less_iff: "pow2 a < pow2 b \<longleftrightarrow> a < b"
  by (simp add: pow2_powr)

lemma pow2_0 [simp]: "pow2 0 = 1"
  by (simp add: pow2_def)

lemma exponent_bounds:
  assumes "x \<noteq> 0"
  shows "pow2 (exponent x) \<le> \<bar>x\<bar> \<and> \<bar>x\<bar> < pow2 (exponent x + 1)"
proof (cases "1 \<le> \<bar>x\<bar>")
  case True
  let ?n = "\<lfloor>\<bar>x\<bar>\<rfloor>"
  have n: "0 < ?n" using True by simp
  have b1: "1 \<le> bitlen ?n" using n by (simp add: bitlen_alt_def)
  have e: "exponent x = bitlen ?n - 1" using True by (simp add: exponent_def)
  from bitlen_bounds [OF n] have lo: "2 ^ nat (bitlen ?n - 1) \<le> ?n" and hi: "?n < 2 ^ nat (bitlen ?n)"
    by simp_all
  have "pow2 (exponent x) = of_int (2 ^ nat (bitlen ?n - 1))"
    using b1 by (simp add: e pow2_def)
  also have "\<dots> \<le> of_int ?n" using lo by (simp only: of_int_le_iff)
  also have "\<dots> \<le> \<bar>x\<bar>" by simp
  finally have 1: "pow2 (exponent x) \<le> \<bar>x\<bar>" .
  have "?n + 1 \<le> 2 ^ nat (bitlen ?n)" using hi by simp
  then have le: "real_of_int (?n + 1) \<le> of_int (2 ^ nat (bitlen ?n))" by (simp only: of_int_le_iff)
  have lt: "\<bar>x\<bar> < of_int (?n + 1)" by linarith
  have p: "pow2 (exponent x + 1) = of_int (2 ^ nat (bitlen ?n))"
    using b1 by (simp add: e pow2_def)
  have 2: "\<bar>x\<bar> < pow2 (exponent x + 1)" using le lt unfolding p by linarith
  from 1 2 show ?thesis by simp
next
  case False
  let ?y = "1 / \<bar>x\<bar>"
  let ?c = "\<lceil>?y\<rceil>"
  let ?b = "bitlen (?c - 1)"
  have a: "0 < \<bar>x\<bar>" "\<bar>x\<bar> < 1" using assms False by simp_all
  then have y1: "1 < ?y" by simp
  then have c: "0 < ?c - 1" by linarith
  have b1: "1 \<le> ?b" using c by (simp add: bitlen_alt_def)
  have e: "exponent x = - ?b" using False by (simp add: exponent_def)
  from bitlen_bounds [OF c] have lo: "2 ^ nat (?b - 1) \<le> ?c - 1" and hi: "?c - 1 < 2 ^ nat ?b"
    by simp_all
  have "?c \<le> 2 ^ nat ?b" using hi by simp
  then have c_le: "real_of_int ?c \<le> 2 ^ nat ?b" by simp
  have y_le: "?y \<le> of_int ?c" by (rule le_of_int_ceiling)
  have "?y \<le> 2 ^ nat ?b" using c_le y_le by linarith
  then have "1 \<le> 2 ^ nat ?b * \<bar>x\<bar>" using a by (simp add: field_simps)
  then have 1: "pow2 (exponent x) \<le> \<bar>x\<bar>"
    using b1 by (simp add: e pow2_def field_simps)
  have "real_of_int (2 ^ nat (?b - 1)) \<le> real_of_int (?c - 1)"
    using lo by (rule of_int_le_iff [THEN iffD2])
  then have lo': "2 ^ nat (?b - 1) \<le> real_of_int (?c - 1)"
    by (simp only: of_int_power of_int_numeral)
  have "real_of_int (?c - 1) < ?y" by linarith
  then have "2 ^ nat (?b - 1) < ?y" using lo' by linarith
  then have "\<bar>x\<bar> < 1 / 2 ^ nat (?b - 1)" using a by (simp add: field_simps)
  moreover have "pow2 (exponent x + 1) = 1 / 2 ^ nat (?b - 1)"
    using b1 by (auto simp add: e pow2_def)
  ultimately have 2: "\<bar>x\<bar> < pow2 (exponent x + 1)" by (simp only:)
  from 1 2 show ?thesis by simp
qed

lemma exponent_unique:
  assumes "pow2 k \<le> \<bar>x\<bar>" and "\<bar>x\<bar> < pow2 (k + 1)"
  shows "exponent x = k"
proof -
  have "0 < \<bar>x\<bar>" using assms(1) pow2_pos [of k] by linarith
  then have nz: "x \<noteq> 0" by simp
  from exponent_bounds [OF nz] have b: "pow2 (exponent x) \<le> \<bar>x\<bar>" "\<bar>x\<bar> < pow2 (exponent x + 1)"
    by simp_all
  have "pow2 k < pow2 (exponent x + 1)" using assms(1) b(2) by simp
  then have 1: "k < exponent x + 1" by (simp add: pow2_less_iff)
  have "pow2 (exponent x) < pow2 (k + 1)" using assms(2) b(1) by simp
  then have 2: "exponent x < k + 1" by (simp add: pow2_less_iff)
  from 1 2 show ?thesis by simp
qed

lemma exponent_minus [simp]: "exponent (- x) = exponent x"
  by (simp add: exponent_def)

lemma exponent_mono:
  assumes "0 < x" and "x \<le> y"
  shows "exponent x \<le> exponent y"
proof -
  have "pow2 (exponent x) \<le> \<bar>x\<bar>" using exponent_bounds [of x] assms by simp
  also have "\<dots> \<le> \<bar>y\<bar>" using assms by simp
  also have "\<dots> < pow2 (exponent y + 1)" using exponent_bounds [of y] assms by simp
  finally show ?thesis by (simp add: pow2_less_iff)
qed

subsection \<open>Rounding to the nearest integer\<close>

lemma rne_cases:
  "roundTiesToEven r = \<lfloor>r\<rfloor> \<or> roundTiesToEven r = \<lfloor>r\<rfloor> + 1"
  by (simp add: roundTiesToEven_def Let_def)

lemma rne_of_int [simp]: "roundTiesToEven (of_int k) = k"
  by (simp add: roundTiesToEven_def)

lemma rne_ge_floor: "\<lfloor>r\<rfloor> \<le> roundTiesToEven r"
  using rne_cases [of r] by auto

lemma rne_mono:
  assumes "r \<le> s"
  shows "roundTiesToEven r \<le> roundTiesToEven s"
proof (cases "\<lfloor>r\<rfloor> = \<lfloor>s\<rfloor>")
  case True
  have "r - of_int \<lfloor>r\<rfloor> \<le> s - of_int \<lfloor>s\<rfloor>" using assms True by simp
  then show ?thesis using True by (auto simp add: roundTiesToEven_def Let_def)
next
  case False
  have "\<lfloor>r\<rfloor> \<le> \<lfloor>s\<rfloor>" using assms by (rule floor_mono)
  with False have "\<lfloor>r\<rfloor> + 1 \<le> \<lfloor>s\<rfloor>" by simp
  then show ?thesis using rne_cases [of r] rne_ge_floor [of s] by auto
qed

lemma rne_minus: "roundTiesToEven (- r) = - roundTiesToEven r"
proof (cases "r = of_int \<lfloor>r\<rfloor>")
  case True
  then obtain k where "r = of_int k" by blast
  then have "roundTiesToEven (- r) = - k" "roundTiesToEven r = k"
    using rne_of_int [of k] rne_of_int [of "- k"] by simp_all
  then show ?thesis by simp
next
  case False
  then have f: "\<lfloor>- r\<rfloor> = - \<lfloor>r\<rfloor> - 1"
    by (metis ceiling_altdef ceiling_def add_diff_cancel_right' minus_diff_eq
        uminus_add_conv_diff diff_minus_eq_add minus_minus)
  have fr: "0 < r - of_int \<lfloor>r\<rfloor>" "r - of_int \<lfloor>r\<rfloor> < 1"
    using False by linarith+
  show ?thesis
    using fr by (auto simp add: roundTiesToEven_def Let_def f)
qed

subsection \<open>The rounding is monotone and keeps binary64 numbers\<close>

lemma binary64_0 [simp]: "binary64 0 = 0"
  by (simp add: binary64_def)

lemma binary64_minus: "binary64 (- x) = - binary64 x"
  by (simp add: binary64_def rne_minus)

lemma binary64_eval:
  assumes "pow2 k \<le> \<bar>x\<bar>" and "\<bar>x\<bar> < pow2 (k + 1)"
  shows "binary64 x = of_int (roundTiesToEven (x / pow2 (k - 52))) * pow2 (k - 52)"
proof -
  have "0 < \<bar>x\<bar>" using assms(1) pow2_pos [of k] by linarith
  then have "x \<noteq> 0" by simp
  then show ?thesis using exponent_unique [OF assms] by (simp add: binary64_def)
qed

lemma binary64_binade:
  assumes "0 < x"
  shows "pow2 (exponent x) \<le> binary64 x \<and> binary64 x \<le> pow2 (exponent x + 1)"
proof -
  let ?k = "exponent x"
  let ?u = "pow2 (?k - 52)"
  have nz: "x \<noteq> 0" using assms by simp
  from exponent_bounds [OF nz] assms have b: "pow2 ?k \<le> x" "x < pow2 (?k + 1)" by simp_all
  have u: "0 < ?u" by simp
  have "pow2 ?k = pow2 (52 + (?k - 52))" "pow2 (?k + 1) = pow2 (53 + (?k - 52))"
    by (rule arg_cong [where f = pow2], simp)+
  then have k: "pow2 ?k = pow2 52 * ?u" "pow2 (?k + 1) = pow2 53 * ?u"
    by (simp_all only: pow2_add)
  have lo: "pow2 52 \<le> x / ?u" using b(1) u by (simp add: k pos_le_divide_eq)
  have hi: "x / ?u \<le> pow2 53" using b(2) u by (simp add: k pos_divide_le_eq)
  have i52: "pow2 52 = of_int (2 ^ 52)" and i53: "pow2 53 = of_int (2 ^ 53)"
    by (simp_all add: pow2_def)
  have "roundTiesToEven (of_int (2 ^ 52)) \<le> roundTiesToEven (x / ?u)"
    using lo unfolding i52 by (rule rne_mono)
  then have 1: "2 ^ 52 \<le> roundTiesToEven (x / ?u)" by (simp only: rne_of_int)
  have "roundTiesToEven (x / ?u) \<le> roundTiesToEven (of_int (2 ^ 53))"
    using hi unfolding i53 by (rule rne_mono)
  then have 2: "roundTiesToEven (x / ?u) \<le> 2 ^ 53" by (simp only: rne_of_int)
  have "real_of_int (2 ^ 52) \<le> of_int (roundTiesToEven (x / ?u))"
    using 1 by (rule of_int_le_iff [THEN iffD2])
  then have "pow2 52 * ?u \<le> of_int (roundTiesToEven (x / ?u)) * ?u"
    unfolding i52 [symmetric] using u by (simp only: mult_le_cancel_right_pos)
  moreover have "real_of_int (roundTiesToEven (x / ?u)) \<le> of_int (2 ^ 53)"
    using 2 by (rule of_int_le_iff [THEN iffD2])
  then have "of_int (roundTiesToEven (x / ?u)) * ?u \<le> pow2 53 * ?u"
    unfolding i53 [symmetric] using u by (simp only: mult_le_cancel_right_pos)
  ultimately show ?thesis using nz by (simp add: binary64_def k)
qed

lemma binary64_pos: "0 < x \<Longrightarrow> 0 < binary64 x"
  using binary64_binade [of x] pow2_pos [of "exponent x"] by linarith

lemma binary64_mono_pos:
  assumes "0 < x" and "x \<le> y"
  shows "binary64 x \<le> binary64 y"
proof (cases "exponent x = exponent y")
  case True
  let ?u = "pow2 (exponent y - 52)"
  have "0 \<le> ?u" by (rule less_imp_le [OF pow2_pos])
  with assms(2) have "x / ?u \<le> y / ?u" by (rule divide_right_mono)
  then have "roundTiesToEven (x / ?u) \<le> roundTiesToEven (y / ?u)" by (rule rne_mono)
  then have "real_of_int (roundTiesToEven (x / ?u)) \<le> of_int (roundTiesToEven (y / ?u))"
    by (rule of_int_le_iff [THEN iffD2])
  then have "of_int (roundTiesToEven (x / ?u)) * ?u \<le> of_int (roundTiesToEven (y / ?u)) * ?u"
    by (simp only: mult_le_cancel_right_pos pow2_pos)
  then show ?thesis using assms True by (simp add: binary64_def)
next
  case False
  have y: "0 < y" using assms by simp
  have "exponent x \<le> exponent y" using assms by (rule exponent_mono)
  with False have "exponent x + 1 \<le> exponent y" by simp
  then have "pow2 (exponent x + 1) \<le> pow2 (exponent y)" by (rule pow2_mono)
  then show ?thesis using binary64_binade [OF assms(1)] binary64_binade [OF y] by linarith
qed

lemma binary64_mono:
  assumes "x \<le> y"
  shows "binary64 x \<le> binary64 y"
proof -
  consider "0 < x" | "x = 0" | "x < 0" "y < 0" | "x < 0" "0 \<le> y" by linarith
  then show ?thesis
  proof cases
    case 1
    then show ?thesis using assms by (rule binary64_mono_pos)
  next
    case 2
    then show ?thesis using assms binary64_pos [of y] by (cases "y = 0") auto
  next
    case 3
    then have "binary64 (- y) \<le> binary64 (- x)" using assms by (intro binary64_mono_pos) simp_all
    then show ?thesis by (simp add: binary64_minus)
  next
    case 4
    have "0 < binary64 (- x)" using 4 by (intro binary64_pos) simp
    then have "binary64 x < 0" by (simp add: binary64_minus)
    moreover have "0 \<le> binary64 y" using 4 binary64_pos [of y] by (cases "y = 0") auto
    ultimately show ?thesis by simp
  qed
qed

text \<open>A number with a significand of at most 53 bits is its own binary64 value.\<close>

lemma binary64_representable_pos:
  assumes "0 < m" and "m < 2 ^ 53"
  shows "binary64 (of_int m * pow2 e) = of_int m * pow2 e"
proof -
  let ?x = "real_of_int m * pow2 e"
  let ?k = "exponent ?x"
  have x: "0 < ?x" using assms(1) by simp
  then have nz: "?x \<noteq> 0" by (metis less_irrefl)
  from exponent_bounds [OF nz] x have b: "pow2 ?k \<le> ?x" by simp
  have "real_of_int m < of_int (2 ^ 53)" using assms(2) by (rule of_int_less_iff [THEN iffD2])
  then have "real_of_int m < pow2 53" by (simp add: pow2_def)
  then have "?x < pow2 53 * pow2 e" by (simp only: mult_less_cancel_right_pos pow2_pos)
  with b have "pow2 ?k < pow2 53 * pow2 e" by linarith
  then have "pow2 ?k < pow2 (53 + e)" by (simp only: pow2_add)
  then have "?k < 53 + e" by (simp add: pow2_less_iff)
  then have d: "0 \<le> e - (?k - 52)" by simp
  have "?x / pow2 (?k - 52) = of_int m * pow2 (e - (?k - 52))"
    by (simp add: pow2_diff)
  also have "\<dots> = of_int (m * 2 ^ nat (e - (?k - 52)))"
    using d by (simp add: pow2_def)
  finally have "roundTiesToEven (?x / pow2 (?k - 52)) = m * 2 ^ nat (e - (?k - 52))"
    by (simp only: rne_of_int)
  then have "binary64 ?x = of_int (m * 2 ^ nat (e - (?k - 52))) * pow2 (?k - 52)"
    using nz by (simp add: binary64_def)
  also have "\<dots> = of_int m * (pow2 (e - (?k - 52)) * pow2 (?k - 52))"
    using d by (simp add: pow2_def)
  also have "\<dots> = ?x" by (simp add: pow2_add [symmetric])
  finally show ?thesis .
qed

lemma binary64_representable:
  assumes "\<bar>m\<bar> < 2 ^ 53"
  shows "binary64 (of_int m * pow2 e) = of_int m * pow2 e"
proof -
  consider "0 < m" | "m = 0" | "m < 0" by linarith
  then show ?thesis
  proof cases
    case 1
    then show ?thesis using assms by (intro binary64_representable_pos) simp_all
  next
    case 2
    then show ?thesis by simp
  next
    case 3
    then have "binary64 (of_int (- m) * pow2 e) = of_int (- m) * pow2 e"
      using assms by (intro binary64_representable_pos) simp_all
    then have "binary64 (- (of_int m * pow2 e)) = - (of_int m * pow2 e)" by simp
    then show ?thesis by (simp only: binary64_minus neg_equal_iff_equal)
  qed
qed

lemma binary64_of_int: "\<bar>m\<bar> < 2 ^ 53 \<Longrightarrow> binary64 (of_int m) = of_int m"
  using binary64_representable [of m 0] by simp

section \<open>Properties of the editability policy\<close>

subsection \<open>The latest movement\<close>

text \<open>
  The sorted copy holds the same movements, and its head is the first movement of the
  array, in array order, among those with the greatest \<^verbatim>\<open>created_at\<close>.
\<close>

lemma set_insert_sorted: "set (insert_sorted cmp x ys) = insert x (set ys)"
  by (induction ys) auto

lemma set_sort_js: "set (sort_js cmp xs) = set xs"
  by (induction xs) (simp_all add: sort_js_def set_insert_sorted)

lemma sort_js_Cons: "sort_js cmp (x # xs) = insert_sorted cmp x (sort_js cmp xs)"
  by (simp add: sort_js_def)

lemma sort_js_eq_Nil: "sort_js cmp xs = [] \<longleftrightarrow> xs = []"
  using set_sort_js [of cmp xs] by (metis set_empty)

lemma hd_insert_sorted:
  "hd (insert_sorted cmp x ys) = (if ys = [] \<or> cmp x (hd ys) \<le> 0 then x else hd ys)"
  by (cases ys) simp_all

lemma latestMovement_Cons:
  "latestMovement (x # xs) =
     (if xs = [] \<or> created_at (latestMovement xs) \<le> created_at x then x else latestMovement xs)"
  by (simp add: latestMovement_def sort_js_Cons hd_insert_sorted sort_js_eq_Nil compareFn_def)

lemma latestMovement_in_set: "ms \<noteq> [] \<Longrightarrow> latestMovement ms \<in> set ms"
  by (induction ms) (auto simp: latestMovement_Cons)

lemma latestMovement_newest:
  "x \<in> set ms \<Longrightarrow> created_at x \<le> created_at (latestMovement ms)"
  by (induction ms) (auto simp: latestMovement_Cons)

subsection \<open>The elapsed minutes, in binary64\<close>

text \<open>
  The comparison \<^verbatim>\<open>diffMinutes > 30\<close> is decided as in exact arithmetic: a difference
  of more than 1800000 milliseconds gives a quotient of at least \<open>30 + 2^-17\<close>, a smaller
  one a quotient of at most \<open>30 - 2^-17\<close>.
\<close>

lemma binary64_int [simp]: "\<bar>k\<bar> < 2 ^ 53 \<Longrightarrow> binary64 (real_of_int k) = real_of_int k"
  by (rule binary64_of_int)

lemma binary64_30 [simp]: "binary64 30 = 30"
  using binary64_of_int [of 30] by simp

text \<open>The fences \<open>30 - 2^-17\<close>, \<open>30 + 2^-17\<close> and \<open>2^-17\<close> are binary64 numbers.\<close>

lemma pow2_m17: "pow2 (- 17) = 1 / 131072"
  by (simp add: pow2_def)

lemma binary64_fence_above: "binary64 (3932161 / 131072) = 3932161 / 131072"
  using binary64_representable [of 3932161 "- 17"] by (simp add: pow2_m17)



lemma elapsed_le:
  assumes "now - created_at m \<le> 1800000"
  shows "diffMinutes m now \<le> 30"
proof -
  have "real_of_int now - real_of_int (created_at m) \<le> 1800000"
    using assms by linarith
  then have "binary64 (real_of_int now - real_of_int (created_at m)) \<le> binary64 1800000"
    by (rule binary64_mono)
  also have "binary64 1800000 = 1800000" using binary64_of_int [of 1800000] by simp
  finally have "binary64 (real_of_int now - real_of_int (created_at m)) / (1000 * 60) \<le> 30"
    by simp
  then have "diffMinutes m now \<le> binary64 30"
    unfolding diffMinutes_def by (rule binary64_mono)
  then show ?thesis by simp
qed


lemma elapsed_above:
  assumes "1800000 < now - created_at m"
  shows "3932161 / 131072 \<le> diffMinutes m now"
proof -
  have "1800001 \<le> real_of_int now - real_of_int (created_at m)"
    using assms by linarith
  then have "binary64 1800001 \<le> binary64 (real_of_int now - real_of_int (created_at m))"
    by (rule binary64_mono)
  moreover have "binary64 1800001 = 1800001" using binary64_of_int [of 1800001] by simp
  ultimately have "1800001 / 60000 \<le> binary64 (real_of_int now - real_of_int (created_at m)) / (1000 * 60)"
    by (simp add: divide_right_mono)
  moreover have "3932161 / 131072 \<le> (1800001 / 60000 :: real)" by simp
  ultimately have "3932161 / 131072 \<le> binary64 (real_of_int now - real_of_int (created_at m)) / (1000 * 60)"
    by linarith
  then have "binary64 (3932161 / 131072) \<le> diffMinutes m now"
    unfolding diffMinutes_def by (rule binary64_mono)
  then show ?thesis by (simp only: binary64_fence_above)
qed


lemma elapsed_gt_iff: "30 < diffMinutes m now \<longleftrightarrow> 1800000 < now - created_at m"
  using elapsed_le [of now m] elapsed_above [of now m]
  by (cases "1800000 < now - created_at m") (auto simp: not_less)



lemma diffMinutes_in_range:
  assumes "\<bar>now - created_at m\<bar> < 2 ^ 53"
  shows "diffMinutes m now = binary64 (real_of_int (now - created_at m) / 60000)"
proof -
  have "binary64 (real_of_int (now - created_at m)) = real_of_int (now - created_at m)"
    using assms by (rule binary64_of_int)
  then show ?thesis by (simp add: diffMinutes_def)
qed

text \<open>
  Within the window, and for a clock that is up to \<open>2^52\<close> milliseconds behind the
  creation time, the three roundings do not change the count: it is the ceiling of the
  exact quotient. A quotient by 60000 that is below an integer is below it by at least
  \<open>1 / 60000\<close>, which is more than \<open>2^-16\<close>, and the multiples of \<open>2^-16\<close> below \<open>2^37\<close>
  in magnitude are binary64 numbers: they fence the quotient and the difference in.
\<close>

lemma pow2_m16: "pow2 (- 16) = 1 / 65536"
  by (simp add: pow2_def)

lemma remainingMinutes_exact:
  assumes lo: "- (2 ^ 52) \<le> now - created_at m" and hi: "now - created_at m \<le> 1800000"
  shows "remainingMinutes m now = \<lceil>30 - real_of_int (now - created_at m) / 60000\<rceil>"
proof -
  define d where "d = now - created_at m"
  define x where "x = real_of_int d / 60000"
  define n where "n = \<lceil>30 - x\<rceil>"
  define q where "q = binary64 x"
  have dlo: "- 4503599627370496 \<le> d" and dhi: "d \<le> 1800000"
    using lo hi by (simp_all add: d_def)
  have rlo: "- 4503599627370496 \<le> real_of_int d" and rhi: "real_of_int d \<le> 1800000"
    using dlo dhi by linarith+
  have "\<bar>now - created_at m\<bar> < 2 ^ 53" using lo hi by simp
  then have qd: "diffMinutes m now = q"
    unfolding q_def x_def d_def by (rule diffMinutes_in_range)
  have xhi: "x \<le> 30" using rhi by (simp add: x_def)
  have xlo: "- 75059993790 \<le> x" using rlo by (simp add: x_def)
  have n0: "0 \<le> n" unfolding n_def using xhi by simp
  have "30 - x \<le> 75059993820" using xlo by simp
  then have "n \<le> 75059993820" unfolding n_def by (simp add: ceiling_le_iff)
  then have nhi: "n \<le> 75059993820" .
  have up: "30 - x \<le> real_of_int n" unfolding n_def by (rule le_of_int_ceiling)
  have "real_of_int n - 1 < 30 - x" unfolding n_def by linarith
  then have "real_of_int d < real_of_int (60000 * (31 - n))" by (simp add: x_def field_simps)
  then have "d < 60000 * (31 - n)" by (simp only: of_int_less_iff)
  then have "d \<le> 60000 * (31 - n) - 1" by simp
  then have "real_of_int d \<le> real_of_int (60000 * (31 - n) - 1)" by (simp only: of_int_le_iff)
  then have x1: "x \<le> 31 - real_of_int n - 1 / 60000" by (simp add: x_def field_simps)
  have x2: "x \<le> 31 - real_of_int n - 1 / 65536" using x1 by simp
  have x3: "30 - real_of_int n \<le> x" using up by simp
  have r1: "binary64 (real_of_int (30 - n)) = real_of_int (30 - n)"
    using n0 nhi by (intro binary64_of_int) simp
  have "\<bar>(31 - n) * 65536 - 1\<bar> < 2 ^ 53" using n0 nhi by simp
  then have "binary64 (real_of_int ((31 - n) * 65536 - 1) * pow2 (- 16))
      = real_of_int ((31 - n) * 65536 - 1) * pow2 (- 16)"
    by (rule binary64_representable)
  moreover have "real_of_int ((31 - n) * 65536 - 1) * pow2 (- 16)
      = 31 - real_of_int n - 1 / 65536"
    by (simp add: pow2_m16 field_simps)
  ultimately have r2: "binary64 (31 - real_of_int n - 1 / 65536) = 31 - real_of_int n - 1 / 65536"
    by simp
  have "\<bar>(n - 1) * 65536 + 1\<bar> < 2 ^ 53" using n0 nhi by simp
  then have "binary64 (real_of_int ((n - 1) * 65536 + 1) * pow2 (- 16))
      = real_of_int ((n - 1) * 65536 + 1) * pow2 (- 16)"
    by (rule binary64_representable)
  moreover have "real_of_int ((n - 1) * 65536 + 1) * pow2 (- 16)
      = real_of_int n - 1 + 1 / 65536"
    by (simp add: pow2_m16 field_simps)
  ultimately have r3: "binary64 (real_of_int n - 1 + 1 / 65536) = real_of_int n - 1 + 1 / 65536"
    by simp
  have r4: "binary64 (real_of_int n) = real_of_int n"
    using n0 nhi by (intro binary64_of_int) simp
  have "binary64 (real_of_int (30 - n)) \<le> q"
    unfolding q_def using x3 by (intro binary64_mono) simp
  then have q1: "30 - real_of_int n \<le> q" using r1 by simp
  have "q \<le> binary64 (31 - real_of_int n - 1 / 65536)"
    unfolding q_def using x2 by (rule binary64_mono)
  then have q2: "q \<le> 31 - real_of_int n - 1 / 65536" using r2 by simp
  have "binary64 (30 - q) \<le> binary64 (real_of_int n)"
    using q1 by (intro binary64_mono) simp
  then have s1: "binary64 (30 - q) \<le> real_of_int n" using r4 by simp
  have "binary64 (real_of_int n - 1 + 1 / 65536) \<le> binary64 (30 - q)"
    using q2 by (intro binary64_mono) simp
  then have s2: "real_of_int n - 1 + 1 / 65536 \<le> binary64 (30 - q)" using r3 by simp
  have "\<lceil>binary64 (30 - q)\<rceil> = n"
    using s1 s2 by (intro ceiling_unique) simp_all
  then show ?thesis
    by (simp add: remainingMinutes_def qd n_def x_def d_def)
qed

subsection \<open>Decimal numerals\<close>

lemma digit_cases:
  assumes "k < (10::nat)"
  obtains "k = 0" | "k = 1" | "k = 2" | "k = 3" | "k = 4" | "k = 5" | "k = 6" | "k = 7"
    | "k = 8" | "k = 9"
  using assms by atomize_elim presburger

lemma digit_value_nth: "k < 10 \<Longrightarrow> digit_value (''0123456789'' ! k) = int k"
  by (erule digit_cases) (simp_all add: digit_value_def)

lemma digit_nth_in: "k < 10 \<Longrightarrow> ''0123456789'' ! k \<in> set ''0123456789''"
  by (erule digit_cases) simp_all

lemma digit_nth_pos: "k < 10 \<Longrightarrow> 0 < k \<Longrightarrow> ''0123456789'' ! k \<in> set ''123456789''"
  by (erule digit_cases) simp_all

lemma decimal_value_snoc: "decimal_value (s @ [c]) = 10 * decimal_value s + digit_value c"
  by (simp add: decimal_value_def)

lemma decimal_value_digits: "decimal_value (digits k) = int k"
proof (induction k rule: digits.induct)
  case (1 n)
  show ?case
  proof (cases "n < 10")
    case True
    then show ?thesis
      using digit_value_nth [of n] by (simp add: digits.simps [of n] decimal_value_def)
  next
    case False
    then have "decimal_value (digits (n div 10)) = int (n div 10)" by (rule 1)
    moreover have "digit_value (''0123456789'' ! (n mod 10)) = int (n mod 10)"
      by (rule digit_value_nth) simp
    moreover have "10 * int (n div 10) + int (n mod 10) = int n"
      by presburger
    ultimately show ?thesis
      using False by (simp add: digits.simps [of n] decimal_value_snoc)
  qed
qed

lemma digits_not_Nil: "digits k \<noteq> []"
  by (simp add: digits.simps [of k])

lemma digits_all_digit: "list_all (\<lambda>c. c \<in> set ''0123456789'') (digits k)"
proof (induction k rule: digits.induct)
  case (1 n)
  show ?case
  proof (cases "n < 10")
    case True
    then show ?thesis using digit_nth_in [of n] by (simp add: digits.simps [of n])
  next
    case False
    then have "list_all (\<lambda>c. c \<in> set ''0123456789'') (digits (n div 10))" by (rule 1)
    moreover have "''0123456789'' ! (n mod 10) \<in> set ''0123456789''"
      by (rule digit_nth_in) simp
    ultimately show ?thesis using False by (simp add: digits.simps [of n])
  qed
qed

lemma digits_hd: "0 < k \<Longrightarrow> hd (digits k) \<in> set ''123456789''"
proof (induction k rule: digits.induct)
  case (1 n)
  show ?case
  proof (cases "n < 10")
    case True
    then show ?thesis using digit_nth_pos [of n] 1(2) by (simp add: digits.simps [of n])
  next
    case False
    then have "0 < n div 10" by simp
    with False have "hd (digits (n div 10)) \<in> set ''123456789''" by (rule 1(1))
    then show ?thesis using False digits_not_Nil [of "n div 10"]
      by (simp add: digits.simps [of n])
  qed
qed

lemma is_numeral_digits: "is_numeral (digits k)"
proof (cases "k = 0")
  case True
  then show ?thesis by (simp add: is_numeral_def digits.simps [of 0])
next
  case False
  then show ?thesis
    using digits_hd [of k] digits_all_digit [of k] digits_not_Nil [of k]
    by (simp add: is_numeral_def)
qed

lemma toString_numeral: "0 \<le> n \<Longrightarrow> is_numeral (toString n) \<and> decimal_value (toString n) = n"
  by (simp add: toString_def is_numeral_digits decimal_value_digits)

lemma remaining_nonneg:
  assumes "now - created_at m \<le> 1800000"
  shows "0 \<le> \<lceil>30 - real_of_int (now - created_at m) / 60000\<rceil>"
proof -
  have "real_of_int (now - created_at m) \<le> 1800000" using assms by linarith
  then have "0 \<le> 30 - real_of_int (now - created_at m) / 60000" by simp
  then show ?thesis by simp
qed

lemma latest_single: "hd (sort_js compareFn [x]) = x"
  by (simp add: sort_js_def)

text \<open>The two roundings at a clock that reads about 261 thousand years before the creation.\<close>

lemma diffMinutes_far:
  "diffMinutes \<lparr>id_m = ''a'', created_at = 4123168604130000\<rparr> (- 4123168604130001)
     = - (9007199254675457 / 65536)"
proof -
  let ?x = "- (8246337208260001 / 60000) :: real"
  have p: "pow2 36 = 68719476736" "pow2 37 = 137438953472" "pow2 (- 16) = 1 / 65536"
    by (simp_all add: pow2_def)
  have a: "pow2 36 \<le> \<bar>?x\<bar>" by (simp add: p)
  have b: "\<bar>?x\<bar> < pow2 (36 + 1)" by (simp add: p)
  have "roundTiesToEven (?x / pow2 (36 - 52)) = - 9007199254675457"
    by (simp add: p roundTiesToEven_def Let_def)
  with binary64_eval [OF a b] have "binary64 ?x = - (9007199254675457 / 65536)"
    by (simp add: p)
  then show ?thesis
    by (simp add: diffMinutes_in_range)
qed

lemma remainingMinutes_far:
  "remainingMinutes \<lparr>id_m = ''a'', created_at = 4123168604130000\<rparr> (- 4123168604130001)
     = 137438953501"
proof -
  let ?z = "9007199256641537 / 65536 :: real"
  have p: "pow2 37 = 137438953472" "pow2 38 = 274877906944" "pow2 (- 15) = 1 / 32768"
    by (simp_all add: pow2_def)
  have a: "pow2 37 \<le> \<bar>?z\<bar>" by (simp add: p)
  have b: "\<bar>?z\<bar> < pow2 (37 + 1)" by (simp add: p)
  have "roundTiesToEven (?z / pow2 (37 - 52)) = 4503599628320768"
    by (simp add: p roundTiesToEven_def Let_def)
  with binary64_eval [OF a b] have "binary64 ?z = 137438953501"
    by (simp add: p)
  moreover have "30 - - (9007199254675457 / 65536) = ?z" by simp
  ultimately show ?thesis
    by (simp only: remainingMinutes_def diffMinutes_far) simp
qed

subsection \<open>The edit window\<close>

text \<open>
  C1, as stated, fails twice. The object \<^verbatim>\<open>canEditMovement\<close> returns has the properties
  \<^verbatim>\<open>canEdit\<close> and \<^verbatim>\<open>reason\<close> and no \<^verbatim>\<open>remainingMinutes\<close>: the count is a local
  constant, visible in the reason only. And the count is computed in binary64: for the
  latest movement, created at the time value 4123168604130000, and a clock that reads
  -4123168604130001 (both valid time values; the elapsed time, negative, is below 30
  minutes), the reason says 137438953501 minutes, while the ceiling of 30 minus the
  elapsed minutes is 137438953502.
\<close>

theorem canEdit_remaining_counterexample:
  "edit_check_object (canEditMovement (Some \<lparr>id_m = ''c'', created_at = 1000000\<rparr>)
       (Some [\<lparr>id_m = ''a'', created_at = 0\<rparr>, \<lparr>id_m = ''c'', created_at = 1000000\<rparr>,
          \<lparr>id_m = ''b'', created_at = 500\<rparr>]) 1600000) ''remainingMinutes'' = None
   \<and> id_m \<lparr>id_m = ''a'', created_at = 4123168604130000\<rparr>
       = id_m (hd (sort_js compareFn [\<lparr>id_m = ''a'', created_at = 4123168604130000\<rparr>]))
   \<and> - 4123168604130001 - created_at \<lparr>id_m = ''a'', created_at = 4123168604130000\<rparr> \<le> 1800000
   \<and> canEditMovement (Some \<lparr>id_m = ''a'', created_at = 4123168604130000\<rparr>)
        (Some [\<lparr>id_m = ''a'', created_at = 4123168604130000\<rparr>]) (- 4123168604130001)
       = \<lparr>canEdit = True,
          reason = ''Puedes editar por 137438953501 minutos m'' @ [CHR 0xE1] @ ''s''\<rparr>
   \<and> \<lceil>30 - real_of_int (- 4123168604130001
          - created_at \<lparr>id_m = ''a'', created_at = 4123168604130000\<rparr>) / 60000\<rceil>
       = 137438953502"
proof -
  let ?m = "\<lparr>id_m = ''a'', created_at = 4123168604130000\<rparr>"
  have w: "\<not> 30 < diffMinutes ?m (- 4123168604130001)" by (simp add: elapsed_gt_iff)
  have "canEditMovement (Some ?m) (Some [?m]) (- 4123168604130001)
       = \<lparr>canEdit = True,
          reason = ''Puedes editar por 137438953501 minutos m'' @ [CHR 0xE1] @ ''s''\<rparr>"
    using w
    by (simp add: canEditMovement_def latestMovement_def latest_single reason_remaining_def
        remainingMinutes_far toString_def digits.simps)
  then show ?thesis
    by (simp add: edit_check_object_def latest_single)
qed

text \<open>
  C1, amended. When the movement is the latest of a non-empty collection (its id is the
  id of the entry at position 0 of the collection sorted by \<^verbatim>\<open>created_at\<close> descending),
  at most 30 minutes have passed since its creation, exactly 30 minutes included, and the
  clock is not more than \<open>2^52\<close> milliseconds behind the creation time,
  \<^verbatim>\<open>canEditMovement\<close> returns an object with \<^verbatim>\<open>canEdit: true\<close> and a reason, and no
  other property; the reason is "Puedes editar por", the decimal numeral of the ceiling of
  30 minus the elapsed minutes, "minuto" when that count is 1 and "minutos" otherwise,
  and the closing word.
\<close>

theorem canEdit_latest_within_window_amended:
  assumes "ms \<noteq> []"
    and "id_m m = id_m (hd (sort_js compareFn ms))"
    and "now - created_at m \<le> 1800000"
    and "- (2 ^ 52) \<le> now - created_at m"
  shows "\<exists>s. canEditMovement (Some m) (Some ms) now =
               \<lparr>canEdit = True,
                reason = ''Puedes editar por '' @ s
                  @ (if \<lceil>30 - real_of_int (now - created_at m) / 60000\<rceil> = 1
                     then '' minuto'' else '' minutos'')
                  @ '' m'' @ [CHR 0xE1] @ ''s''\<rparr>
             \<and> is_numeral s
             \<and> decimal_value s = \<lceil>30 - real_of_int (now - created_at m) / 60000\<rceil>
             \<and> dom (edit_check_object (canEditMovement (Some m) (Some ms) now))
                  = {''canEdit'', ''reason''}"
proof -
  let ?n = "\<lceil>30 - real_of_int (now - created_at m) / 60000\<rceil>"
  have r: "remainingMinutes m now = ?n"
    using assms(4) assms(3) by (rule remainingMinutes_exact)
  have w: "\<not> 30 < diffMinutes m now"
    using assms(3) by (simp add: elapsed_gt_iff)
  have n: "is_numeral (toString ?n) \<and> decimal_value (toString ?n) = ?n"
    using assms(3) by (intro toString_numeral remaining_nonneg)
  have "canEditMovement (Some m) (Some ms) now =
          \<lparr>canEdit = True,
           reason = ''Puedes editar por '' @ toString ?n
             @ (if ?n = 1 then '' minuto'' else '' minutos'') @ '' m'' @ [CHR 0xE1] @ ''s''\<rparr>"
    using assms(1) assms(2) w
    by (simp add: canEditMovement_def latestMovement_def reason_remaining_def r)
  moreover have "dom (edit_check_object (canEditMovement (Some m) (Some ms) now))
      = {''canEdit'', ''reason''}"
    by (auto simp: edit_check_object_def)
  ultimately show ?thesis using n by blast
qed

text \<open>
  The scenario of the specification: created 10 minutes ago, the latest of three
  movements, 20 minutes remain.
\<close>

theorem canEdit_latest_within_window_amended_witness:
  "[\<lparr>id_m = ''a'', created_at = 0\<rparr>, \<lparr>id_m = ''c'', created_at = 1000000\<rparr>,
     \<lparr>id_m = ''b'', created_at = 500\<rparr>] \<noteq> []
   \<and> id_m \<lparr>id_m = ''c'', created_at = 1000000\<rparr> =
       id_m (hd (sort_js compareFn [\<lparr>id_m = ''a'', created_at = 0\<rparr>,
         \<lparr>id_m = ''c'', created_at = 1000000\<rparr>, \<lparr>id_m = ''b'', created_at = 500\<rparr>]))
   \<and> 1600000 - created_at \<lparr>id_m = ''c'', created_at = 1000000\<rparr> \<le> 1800000
   \<and> - (2 ^ 52) \<le> 1600000 - created_at \<lparr>id_m = ''c'', created_at = 1000000\<rparr>
   \<and> \<lceil>30 - real_of_int (1600000 - created_at \<lparr>id_m = ''c'', created_at = 1000000\<rparr>) / 60000\<rceil>
       = 20
   \<and> canEditMovement (Some \<lparr>id_m = ''c'', created_at = 1000000\<rparr>)
        (Some [\<lparr>id_m = ''a'', created_at = 0\<rparr>, \<lparr>id_m = ''c'', created_at = 1000000\<rparr>,
          \<lparr>id_m = ''b'', created_at = 500\<rparr>]) 1600000
       = \<lparr>canEdit = True, reason = ''Puedes editar por 20 minutos m'' @ [CHR 0xE1] @ ''s''\<rparr>
   \<and> decimal_value ''20'' = 20
   \<and> dom (edit_check_object (canEditMovement (Some \<lparr>id_m = ''c'', created_at = 1000000\<rparr>)
        (Some [\<lparr>id_m = ''a'', created_at = 0\<rparr>, \<lparr>id_m = ''c'', created_at = 1000000\<rparr>,
          \<lparr>id_m = ''b'', created_at = 500\<rparr>]) 1600000)) = {''canEdit'', ''reason''}"
proof -
  let ?m = "\<lparr>id_m = ''c'', created_at = 1000000\<rparr>"
  let ?ms = "[\<lparr>id_m = ''a'', created_at = 0\<rparr>, ?m, \<lparr>id_m = ''b'', created_at = 500\<rparr>]"
  have h1: "?ms \<noteq> []" by simp
  have h2: "id_m ?m = id_m (hd (sort_js compareFn ?ms))"
    by (simp add: sort_js_def compareFn_def)
  have h3: "1600000 - created_at ?m \<le> 1800000" by simp
  have h4: "- (2 ^ 52) \<le> 1600000 - created_at ?m" by simp
  have v: "\<lceil>30 - real_of_int (1600000 - created_at ?m) / 60000\<rceil> = 20" by simp
  from canEdit_latest_within_window_amended [OF h1 h2 h3 h4]
  obtain s where e: "canEditMovement (Some ?m) (Some ?ms) 1600000 =
               \<lparr>canEdit = True,
                reason = ''Puedes editar por '' @ s
                  @ (if \<lceil>30 - real_of_int (1600000 - created_at ?m) / 60000\<rceil> = 1
                     then '' minuto'' else '' minutos'')
                  @ '' m'' @ [CHR 0xE1] @ ''s''\<rparr>"
    and s: "decimal_value s = \<lceil>30 - real_of_int (1600000 - created_at ?m) / 60000\<rceil>"
    and d: "dom (edit_check_object (canEditMovement (Some ?m) (Some ?ms) 1600000))
                  = {''canEdit'', ''reason''}"
    by blast
  have w: "\<not> 30 < diffMinutes ?m 1600000" by (simp add: elapsed_gt_iff)
  have r: "remainingMinutes ?m 1600000 = 20" by (simp add: remainingMinutes_exact)
  have "reason (canEditMovement (Some ?m) (Some ?ms) 1600000)
      = ''Puedes editar por 20 minutos m'' @ [CHR 0xE1] @ ''s''"
    using h2 w
    by (simp add: canEditMovement_def latestMovement_def reason_remaining_def r toString_def
        digits.simps)
  moreover have "canEdit (canEditMovement (Some ?m) (Some ?ms) 1600000) = True"
    by (simp add: e)
  ultimately have "canEditMovement (Some ?m) (Some ?ms) 1600000
       = \<lparr>canEdit = True, reason = ''Puedes editar por 20 minutos m'' @ [CHR 0xE1] @ ''s''\<rparr>"
    by (cases "canEditMovement (Some ?m) (Some ?ms) 1600000") simp
  moreover have "decimal_value ''20'' = 20" by (simp add: decimal_value_def digit_value_def)
  ultimately show ?thesis using h2 d by simp
qed

text \<open>At exactly 30 minutes the movement is still editable, with 0 minutes left.\<close>

lemma canEdit_at_exactly_30_minutes:
  "canEditMovement (Some \<lparr>id_m = ''a'', created_at = 5000\<rparr>)
     (Some [\<lparr>id_m = ''a'', created_at = 5000\<rparr>]) 1805000
   = \<lparr>canEdit = True, reason = ''Puedes editar por 0 minutos m'' @ [CHR 0xE1] @ ''s''\<rparr>"
  by (simp add: canEditMovement_def latestMovement_def latest_single elapsed_gt_iff
      remainingMinutes_exact reason_remaining_def toString_def digits.simps)

lemma canEdit_one_minute_left:
  "canEditMovement (Some \<lparr>id_m = ''a'', created_at = 0\<rparr>)
     (Some [\<lparr>id_m = ''a'', created_at = 0\<rparr>]) 1750000
   = \<lparr>canEdit = True, reason = ''Puedes editar por 1 minuto m'' @ [CHR 0xE1] @ ''s''\<rparr>"
  by (simp add: canEditMovement_def latestMovement_def latest_single elapsed_gt_iff
      remainingMinutes_exact reason_remaining_def toString_def digits.simps)

lemma canEdit_after_30_minutes:
  "canEditMovement (Some \<lparr>id_m = ''a'', created_at = 0\<rparr>)
     (Some [\<lparr>id_m = ''a'', created_at = 0\<rparr>]) 1800001
   = \<lparr>canEdit = False,
      reason = ''Han pasado m'' @ [CHR 0xE1] @ ''s de 30 minutos desde la creaci''
        @ [CHR 0xF3] @ ''n''\<rparr>"
  by (simp add: canEditMovement_def latestMovement_def latest_single elapsed_gt_iff
      reason_expired_def)

text \<open>
  C2. In a non-empty collection, a movement whose id differs from the id at position 0
  of the collection sorted by \<^verbatim>\<open>created_at\<close> descending is not editable, with the
  reason that only the last registered movement can be edited, whatever the time.
\<close>

theorem not_latest_not_editable:
  assumes "ms \<noteq> []" and "x \<in> set ms" and "id_m x \<noteq> id_m (hd (sort_js compareFn ms))"
  shows "canEditMovement (Some x) (Some ms) now =
           \<lparr>canEdit = False,
            reason = ''Solo se puede editar el '' @ [CHR 0xFA] @ ''ltimo movimiento registrado''\<rparr>"
  using assms by (simp add: canEditMovement_def latestMovement_def reason_not_latest_def)

theorem not_latest_not_editable_witness:
  "[\<lparr>id_m = ''new'', created_at = 600000\<rparr>, \<lparr>id_m = ''old'', created_at = 300000\<rparr>] \<noteq> []
   \<and> \<lparr>id_m = ''old'', created_at = 300000\<rparr>
       \<in> set [\<lparr>id_m = ''new'', created_at = 600000\<rparr>, \<lparr>id_m = ''old'', created_at = 300000\<rparr>]
   \<and> id_m \<lparr>id_m = ''old'', created_at = 300000\<rparr> \<noteq>
       id_m (hd (sort_js compareFn
         [\<lparr>id_m = ''new'', created_at = 600000\<rparr>, \<lparr>id_m = ''old'', created_at = 300000\<rparr>]))
   \<and> canEditMovement (Some \<lparr>id_m = ''old'', created_at = 300000\<rparr>)
        (Some [\<lparr>id_m = ''new'', created_at = 600000\<rparr>, \<lparr>id_m = ''old'', created_at = 300000\<rparr>])
        600000
       = \<lparr>canEdit = False,
          reason = ''Solo se puede editar el '' @ [CHR 0xFA] @ ''ltimo movimiento registrado''\<rparr>"
proof -
  let ?x = "\<lparr>id_m = ''old'', created_at = 300000\<rparr>"
  let ?ms = "[\<lparr>id_m = ''new'', created_at = 600000\<rparr>, ?x]"
  have h1: "?ms \<noteq> []" by simp
  have h2: "?x \<in> set ?ms" by simp
  have h3: "id_m ?x \<noteq> id_m (hd (sort_js compareFn ?ms))"
    by (simp add: sort_js_def compareFn_def)
  show ?thesis
    using not_latest_not_editable [OF h1 h2 h3, of 600000] h3 by simp
qed



text \<open>
  C5, as stated, fails: a movement that is not among the movements of a non-empty
  collection gets the reason of a movement that is not the latest, not "Movimiento no
  encontrado".
\<close>

theorem canEdit_not_found_counterexample:
  "''b'' \<notin> id_m ` set [\<lparr>id_m = ''a'', created_at = 0\<rparr>]
   \<and> canEditMovement (Some \<lparr>id_m = ''b'', created_at = 0\<rparr>)
         (Some [\<lparr>id_m = ''a'', created_at = 0\<rparr>]) 60000
       = \<lparr>canEdit = False,
          reason = ''Solo se puede editar el '' @ [CHR 0xFA] @ ''ltimo movimiento registrado''\<rparr>
   \<and> reason (canEditMovement (Some \<lparr>id_m = ''b'', created_at = 0\<rparr>)
         (Some [\<lparr>id_m = ''a'', created_at = 0\<rparr>]) 60000)
       \<noteq> ''Movimiento no encontrado''"
  by (simp add: canEditMovement_def latestMovement_Cons reason_not_latest_def)

text \<open>
  C5, amended. A \<^verbatim>\<open>null\<close> movement, a \<^verbatim>\<open>null\<close> collection or an empty collection
  gives \<^verbatim>\<open>canEdit: false\<close> with the reason "Movimiento no encontrado". A movement
  whose id is the id of no movement of a non-empty collection gives
  \<^verbatim>\<open>canEdit: false\<close> with the reason that only the last registered movement can be
  edited: the function makes no membership test.
\<close>

theorem canEdit_not_found_amended:
  "(movement = None \<or> allMovements = None \<or> allMovements = Some [] \<longrightarrow>
      canEditMovement movement allMovements now
        = \<lparr>canEdit = False, reason = ''Movimiento no encontrado''\<rparr>)
   \<and> (ms \<noteq> [] \<and> id_m m \<notin> id_m ` set ms \<longrightarrow>
      canEditMovement (Some m) (Some ms) now
        = \<lparr>canEdit = False,
           reason = ''Solo se puede editar el '' @ [CHR 0xFA] @ ''ltimo movimiento registrado''\<rparr>)"
proof (intro conjI impI)
  assume "movement = None \<or> allMovements = None \<or> allMovements = Some []"
  then show "canEditMovement movement allMovements now
        = \<lparr>canEdit = False, reason = ''Movimiento no encontrado''\<rparr>"
    by (auto simp: canEditMovement_def reason_not_found_def split: option.splits)
next
  assume a: "ms \<noteq> [] \<and> id_m m \<notin> id_m ` set ms"
  then have "latestMovement ms \<in> set ms" by (simp add: latestMovement_in_set)
  with a have "id_m m \<noteq> id_m (latestMovement ms)" by force
  with a show "canEditMovement (Some m) (Some ms) now
        = \<lparr>canEdit = False,
           reason = ''Solo se puede editar el '' @ [CHR 0xFA] @ ''ltimo movimiento registrado''\<rparr>"
    by (simp add: canEditMovement_def reason_not_latest_def)
qed

theorem canEdit_not_found_amended_witness:
  "canEditMovement (Some \<lparr>id_m = ''b'', created_at = 0\<rparr>) (Some []) 60000
     = \<lparr>canEdit = False, reason = ''Movimiento no encontrado''\<rparr>
   \<and> canEditMovement None (Some [\<lparr>id_m = ''a'', created_at = 0\<rparr>]) 60000
     = \<lparr>canEdit = False, reason = ''Movimiento no encontrado''\<rparr>
   \<and> [\<lparr>id_m = ''a'', created_at = 0\<rparr>] \<noteq> []
   \<and> id_m \<lparr>id_m = ''b'', created_at = 0\<rparr> \<notin> id_m ` set [\<lparr>id_m = ''a'', created_at = 0\<rparr>]
   \<and> canEditMovement (Some \<lparr>id_m = ''b'', created_at = 0\<rparr>)
         (Some [\<lparr>id_m = ''a'', created_at = 0\<rparr>]) 60000
       = \<lparr>canEdit = False,
          reason = ''Solo se puede editar el '' @ [CHR 0xFA] @ ''ltimo movimiento registrado''\<rparr>"
  using canEdit_not_found_amended [of "Some \<lparr>id_m = ''b'', created_at = 0\<rparr>" "Some []" 60000
          "[\<lparr>id_m = ''a'', created_at = 0\<rparr>]" "\<lparr>id_m = ''b'', created_at = 0\<rparr>"]
        canEdit_not_found_amended [of None "Some [\<lparr>id_m = ''a'', created_at = 0\<rparr>]" 60000
          "[\<lparr>id_m = ''a'', created_at = 0\<rparr>]" "\<lparr>id_m = ''b'', created_at = 0\<rparr>"]
  by simp

section \<open>Properties of the movement lifecycle\<close>

subsection \<open>Traces and stored rows\<close>

lemma allowedUpdates_restrict:
  "allowedUpdates updates = updates |` {''monto'', ''motivo'', ''comprobante_url''}"
  by (rule ext) (simp add: allowedUpdates_def Let_def restrict_map_def)

lemma added_append: "trace w' = trace w @ es \<Longrightarrow> added w w' = es"
  by (simp add: added_def)

lemma trace_emit: "trace (emit ev w) = trace w @ [ev]"
  by (simp add: emit_def)

lemma table_emit: "table (emit ev w) = table w"
  by (simp add: emit_def)

lemma stored_emit: "stored (emit ev w) = stored w"
  by (simp add: stored_def fun_eq_iff table_emit)

lemma truthy_simps:
  "truthy None = False" "truthy (Some JNull) = False" "truthy (Some (JBool b)) = b"
  "truthy (Some (JNum r)) = (r \<noteq> 0)" "truthy (Some (JStr t)) = (t \<noteq> [])"
  "truthy (Some (JObj kv)) = True"
  by (simp_all add: truthy_def)

lemma getMovementById_trace:
  "\<exists>es. trace (snd (getMovementById e i w)) = trace w @ es \<and> filter is_core es = []"
  by (auto simp: getMovementById_def Let_def trace_emit split: db_outcome.splits option.splits)

lemma getMovementById_table: "table (snd (getMovementById e i w)) = table w"
  by (auto simp: getMovementById_def Let_def table_emit split: db_outcome.splits option.splits)

lemma getMovementById_Some:
  "getMovementById e i w = (Some r, w1) \<Longrightarrow> client e \<and> table w i = Some r"
  by (auto simp: getMovementById_def Let_def split: db_outcome.splits option.splits if_splits)

lemma updateMovement_trace:
  "\<exists>es. trace (snd (updateMovement e i u w)) = trace w @ es
     \<and> filter is_core es = (if client e then [Update i (allowedUpdates u)] else [])
     \<and> set es \<subseteq> {Update i (allowedUpdates u), Console Error}"
  by (auto simp: updateMovement_def Let_def trace_emit
      split: db_outcome.splits option.splits)

lemma updateMovement_stored:
  "col \<notin> {''monto'', ''motivo'', ''comprobante_url'', ''updated_at''} \<Longrightarrow>
     stored (snd (updateMovement e i u w)) k col = stored w k col"
  by (auto simp: updateMovement_def Let_def stored_def table_emit emit_def allowedUpdates_restrict
      map_add_def restrict_map_def
      split: db_outcome.splits option.splits)

lemma updateMovement_keeps_rows:
  "table w k \<noteq> None \<Longrightarrow> table (snd (updateMovement e i u w)) k \<noteq> None"
  by (auto simp: updateMovement_def Let_def table_emit emit_def
      split: db_outcome.splits option.splits)

lemma updateMovement_restrict:
  "updateMovement e i (u |` {''monto'', ''motivo'', ''comprobante_url''}) w = updateMovement e i u w"
proof -
  have "allowedUpdates (u |` {''monto'', ''motivo'', ''comprobante_url''}) = allowedUpdates u"
    by (simp add: allowedUpdates_restrict)
  then show ?thesis by (simp add: updateMovement_def)
qed

text \<open>
  The identifiers a webhook returns are none of the three fields that
  \<^verbatim>\<open>updateMovement\<close> forwards: the update that is meant to store them has an empty payload.
\<close>

lemma allowedUpdates_correlationUpdates: "allowedUpdates (correlationUpdates r) = Map.empty"
  by (rule ext) (simp add: allowedUpdates_restrict correlationUpdates_def restrict_map_def)

lemma updateMovement_stored_empty:
  "allowedUpdates u = Map.empty \<Longrightarrow> col \<noteq> ''updated_at'' \<Longrightarrow>
     stored (snd (updateMovement e i u w)) k col = stored w k col"
  by (auto simp: updateMovement_def Let_def stored_def table_emit emit_def
      split: db_outcome.splits option.splits)

subsection \<open>The notification functions\<close>

lemma notifyDeletionWebhook_trace:
  "\<exists>es. trace (snd (notifyDeletionWebhook e (Some m) w)) = trace w @ es
     \<and> filter is_core es =
         (if truthy (m ''idmessage'') \<and> truthy (m ''remote_jid'')
          then [PostDelete (deletionForm m)] else [])"
  by (auto simp: notifyDeletionWebhook_def notifyDeletionWebhook_try_def Let_def trace_emit
      split: fetch_outcome.splits)

lemma notifyDeletionWebhook_returns: "fst (notifyDeletionWebhook e m w) = Inr ()"
  by (auto simp: notifyDeletionWebhook_def split: prod.splits sum.splits)

lemma notifyVerificationWebhook_returns: "fst (notifyVerificationWebhook e m w) = Inr ()"
  by (auto simp: notifyVerificationWebhook_def split: prod.splits sum.splits)

text \<open>
  The movement webhook returns normally unless its body fails with \<^verbatim>\<open>null\<close> or
  \<^verbatim>\<open>undefined\<close>, which only a rejected webhook call can supply.
\<close>

lemma notifyMovementWebhook_try_nullish:
  "notifyMovementWebhook_try e app m w = (Inl err, w') \<Longrightarrow> nullish err \<Longrightarrow>
     \<exists>n. rejects_nullish (http e n)"
  by (auto simp: notifyMovementWebhook_try_def Let_def
      split: prod.splits option.splits fetch_outcome.splits json_outcome.splits if_splits
      intro: exI [of _ "length (trace (snd (getBalanceAfter e w)))"])

lemma notifyMovementWebhook_upload_js_try_nullish:
  "notifyMovementWebhook_upload_js_try e m w = (Inl err, w') \<Longrightarrow> nullish err \<Longrightarrow>
     \<exists>n. rejects_nullish (http e n)"
  by (auto simp: notifyMovementWebhook_upload_js_try_def Let_def
      split: option.splits fetch_outcome.splits
      intro: exI [of _ "length (trace w)"])

lemma notifyMovementWebhook_returns:
  assumes "\<And>n. \<not> rejects_nullish (http e n)"
  shows "fst (notifyMovementWebhook e app m w) = Inr ()"
proof (cases "notifyMovementWebhook_try e app m w")
  case (Pair r w')
  show ?thesis
  proof (cases r)
    case (Inl err)
    then have "\<not> nullish err"
      using notifyMovementWebhook_try_nullish [of e app m w err w'] Pair assms by blast
    then show ?thesis using Pair Inl by (simp add: notifyMovementWebhook_def)
  next
    case (Inr u)
    then show ?thesis using Pair by (simp add: notifyMovementWebhook_def)
  qed
qed

lemma notifyMovementWebhook_upload_js_returns:
  assumes "\<And>n. \<not> rejects_nullish (http e n)"
  shows "fst (notifyMovementWebhook_upload_js e m w) = Inr ()"
proof (cases "notifyMovementWebhook_upload_js_try e m w")
  case (Pair r w')
  show ?thesis
  proof (cases r)
    case (Inl err)
    then have "\<not> nullish err"
      using notifyMovementWebhook_upload_js_try_nullish [of e m w err w'] Pair assms by blast
    then show ?thesis using Pair Inl by (simp add: notifyMovementWebhook_upload_js_def)
  next
    case (Inr u)
    then show ?thesis using Pair by (simp add: notifyMovementWebhook_upload_js_def)
  qed
qed

lemma notifyVerificationWebhook_table:
  "table (snd (notifyVerificationWebhook e m w)) = table w"
  by (auto simp: notifyVerificationWebhook_def notifyVerificationWebhook_try_def Let_def
      table_emit
      split: fetch_outcome.splits option.splits jsval.splits)

lemma getBalanceAfter_trace:
  "\<exists>es. trace (snd (getBalanceAfter e w)) = trace w @ es \<and> filter is_core es = []"
  by (auto simp: getBalanceAfter_def Let_def trace_emit split: option.splits)

lemma getBalanceAfter_table: "table (snd (getBalanceAfter e w)) = table w"
  by (auto simp: getBalanceAfter_def Let_def table_emit split: option.splits)

lemma notifyMovementWebhook_trace:
  "\<exists>es bal n. trace (snd (notifyMovementWebhook e app (Some m) w)) = trace w @ es
     \<and> (filter is_core es = [PostMovement (movementForm e app m bal n)]
          \<or> filter is_core es
              = [PostMovement (movementForm e app m bal n), Update (m ''id'') Map.empty])"
proof -
  obtain b w1 where g: "getBalanceAfter e w = (b, w1)" by (cases "getBalanceAfter e w")
  obtain es1 where e1: "trace w1 = trace w @ es1" "filter is_core es1 = []"
    using getBalanceAfter_trace [of e w] g by auto
  let ?f = "movementForm e app m b (length (trace w1))"
  let ?w2 = "emit (PostMovement ?f) w1"
  have t2: "trace ?w2 = trace w @ es1 @ [PostMovement ?f]"
    by (simp add: trace_emit e1)
  have plain: ?thesis
    if "\<exists>tl. trace (snd (notifyMovementWebhook e app (Some m) w))
          = trace w @ (es1 @ [PostMovement ?f] @ tl) \<and> filter is_core tl = []"
  proof -
    from that obtain tl where "trace (snd (notifyMovementWebhook e app (Some m) w))
          = trace w @ (es1 @ [PostMovement ?f] @ tl)" "filter is_core tl = []" by blast
    then show ?thesis using e1
      by (intro exI [of _ "es1 @ [PostMovement ?f] @ tl"] exI [of _ b]
          exI [of _ "length (trace w1)"]) simp
  qed
  show ?thesis
  proof (cases "http e (length (trace w1))")
    case (Rejects v)
    then have "\<exists>tl. trace (snd (notifyMovementWebhook e app (Some m) w))
          = trace w @ (es1 @ [PostMovement ?f] @ tl) \<and> filter is_core tl = []"
      using t2
      by (cases "nullish (Rejected v)")
         (simp_all add: notifyMovementWebhook_def notifyMovementWebhook_try_def g Let_def
          trace_emit)
    then show ?thesis by (rule plain)
  next
    case (Response ok body)
    show ?thesis
    proof (cases "ok \<and> (\<exists>result. body = JsonObject result
        \<and> (truthy (result ''id'') \<or> truthy (result ''remoteJid'')))")
      case True
      then obtain result where r: "body = JsonObject result" "ok"
        "truthy (result ''id'') \<or> truthy (result ''remoteJid'')" by auto
      obtain es3 where e3:
        "trace (snd (updateMovement e (m ''id'') (correlationUpdates result) ?w2)) = trace ?w2 @ es3"
        "filter is_core es3 = (if client e then [Update (m ''id'') Map.empty] else [])"
        using updateMovement_trace [of e "m ''id''" "correlationUpdates result" ?w2]
        by (auto simp: allowedUpdates_correlationUpdates)
      have "trace (snd (notifyMovementWebhook e app (Some m) w))
          = trace w @ (es1 @ [PostMovement ?f] @ es3)"
        using Response r e3(1) t2
        by (auto simp add: notifyMovementWebhook_def notifyMovementWebhook_try_def g Let_def
            split: prod.splits)
      then show ?thesis using e1 e3(2)
        by (intro exI [of _ "es1 @ [PostMovement ?f] @ es3"] exI [of _ b]
            exI [of _ "length (trace w1)"]) simp
    next
      case False
      then have "\<exists>tl. trace (snd (notifyMovementWebhook e app (Some m) w))
          = trace w @ (es1 @ [PostMovement ?f] @ tl) \<and> filter is_core tl = []"
        using Response t2
        by (cases body; cases ok)
           (auto simp add: notifyMovementWebhook_def notifyMovementWebhook_try_def g Let_def
            trace_emit)
      then show ?thesis by (rule plain)
    qed
  qed
qed

lemma notifyMovementWebhook_stored:
  "col \<noteq> ''updated_at'' \<Longrightarrow>
     stored (snd (notifyMovementWebhook e app m w)) k col = stored w k col"
proof -
  assume c: "col \<noteq> ''updated_at''"
  obtain b w1 where g: "getBalanceAfter e w = (b, w1)" by (cases "getBalanceAfter e w")
  have s1: "stored w1 = stored w"
    using getBalanceAfter_table [of e w] g by (simp add: stored_def fun_eq_iff)
  have u: "\<And>i r w'. stored (snd (updateMovement e i (correlationUpdates r) w')) k col = stored w' k col"
    using c by (simp add: updateMovement_stored_empty allowedUpdates_correlationUpdates)
  show ?thesis
    using s1 u
    apply (auto simp add: notifyMovementWebhook_def notifyMovementWebhook_try_def g Let_def
        stored_emit split: option.splits fetch_outcome.splits json_outcome.splits prod.splits)
     apply (metis snd_conv stored_emit)+
    done
qed

lemma notifyMovementWebhook_keeps_rows:
  "table w k \<noteq> None \<Longrightarrow> table (snd (notifyMovementWebhook e app m w)) k \<noteq> None"
proof -
  assume c: "table w k \<noteq> None"
  obtain b w1 where g: "getBalanceAfter e w = (b, w1)" by (cases "getBalanceAfter e w")
  have s1: "table w1 = table w"
    using getBalanceAfter_table [of e w] g by simp
  have u: "\<And>i r w'. table w' k \<noteq> None \<Longrightarrow> table (snd (updateMovement e i r w')) k \<noteq> None"
    by (rule updateMovement_keeps_rows)
  show ?thesis
    using s1 c u
    apply (auto simp add: notifyMovementWebhook_def notifyMovementWebhook_try_def g Let_def
        table_emit split: option.splits fetch_outcome.splits json_outcome.splits prod.splits)
    apply (metis snd_conv table_emit)+
    done
qed

subsection \<open>The edit branch and the insert\<close>

lemma updateMovement_Some:
  assumes "updateMovement e (Some (JStr k)) u w = (Some data, w3)"
  shows "\<exists>row. table w k = Some row
           \<and> data = (row ++ allowedUpdates u)(''updated_at'' \<mapsto> JStr (clock e (length (trace w))))
           \<and> table w3 k = Some data"
  using assms
  by (auto simp: updateMovement_def Let_def row_id_def emit_def
      split: if_splits db_outcome.splits option.splits)

lemma editUpdates_fields:
  "allowedUpdates (editUpdates app x s c) ''monto'' = Some (JNum x)"
  "allowedUpdates (editUpdates app x s c) ''motivo'' = Some (JStr s)"
  by (simp_all add: allowedUpdates_restrict editUpdates_def Let_def restrict_map_def)

lemma movementForm_fields:
  "map_of (movementForm e app m bal n) ''monto'' = Some (js_or (m ''monto'') (Some (JNum 0)))"
  "map_of (movementForm e app m bal n) ''motivo'' = Some (js_or (m ''motivo'') (Some (JStr [])))"
  "map_of (movementForm e app m bal n) ''saldo_despues'' = Some bal"
  by (simp_all add: movementForm_def Let_def)

lemma js_or_same:
  "js_or (Some (JNum x)) (Some (JNum 0)) = Some (JNum x)"
  "js_or (Some (JStr s)) (Some (JStr [])) = Some (JStr s)"
  by (simp_all add: js_or_def truthy_simps)

lemma editBranch_trace:
  assumes g: "getMovementById e eid w = (old, w1)"
    and d: "(case old of
               None \<Rightarrow> (Inr (), w1)
             | Some om \<Rightarrow> if truthy (om ''idmessage'') then notifyDeletionWebhook e (Some om) w1
                          else (Inr (), w1)) = (r2, w2)"
    and u: "updateMovement e (Some (JStr eid)) (editUpdates app x s c) w2 = (upd, w3)"
  shows "\<exists>es1 es2 es3 es4.
      trace (snd (editBranch e app eid x s c w)) = trace w @ es1 @ es2 @ es3 @ es4
      \<and> filter is_core es1 = []
      \<and> filter is_core es2 =
          (case old of
             None \<Rightarrow> []
           | Some om \<Rightarrow> if truthy (om ''idmessage'') \<and> truthy (om ''remote_jid'')
                        then [PostDelete (deletionForm om)] else [])
      \<and> filter is_core es3 =
          (if client e then [Update (Some (JStr eid)) (allowedUpdates (editUpdates app x s c))]
           else [])
      \<and> (upd = None \<longrightarrow> filter is_core es4 = [])
      \<and> (\<forall>data. upd = Some data \<longrightarrow>
           (\<exists>bal n. filter is_core es4 = [PostMovement (movementForm e app data bal n)]
              \<or> filter is_core es4
                  = [PostMovement (movementForm e app data bal n),
                     Update (data ''id'') Map.empty]))"
proof -
  obtain es1 where e1: "trace w1 = trace w @ es1" "filter is_core es1 = []"
    using getMovementById_trace [of e eid w] g by auto
  have r2: "r2 = Inr ()"
    using d notifyDeletionWebhook_returns [of e _ w1]
    by (auto split: option.splits if_splits) (metis fst_conv)
  obtain es2 where e2: "trace w2 = trace w1 @ es2"
    "filter is_core es2 =
          (case old of
             None \<Rightarrow> []
           | Some om \<Rightarrow> if truthy (om ''idmessage'') \<and> truthy (om ''remote_jid'')
                        then [PostDelete (deletionForm om)] else [])"
  proof (cases old)
    case None
    with d have "trace w2 = trace w1 @ []" by simp
    with None that show ?thesis by simp
  next
    case (Some om)
    show ?thesis
    proof (cases "truthy (om ''idmessage'')")
      case True
      with Some d have "w2 = snd (notifyDeletionWebhook e (Some om) w1)" by simp
      with notifyDeletionWebhook_trace [of e om w1] Some True that show ?thesis by auto
    next
      case False
      with Some d have "trace w2 = trace w1 @ []" by simp
      with Some False that show ?thesis by simp
    qed
  qed
  obtain es3 where e3: "trace w3 = trace w2 @ es3"
    "filter is_core es3 =
          (if client e then [Update (Some (JStr eid)) (allowedUpdates (editUpdates app x s c))]
           else [])"
    using updateMovement_trace [of e "Some (JStr eid)" "editUpdates app x s c" w2] u by auto
  show ?thesis
  proof (cases upd)
    case None
    then have "snd (editBranch e app eid x s c w) = w3"
      using g d u r2 by (simp add: editBranch_def)
    then have "trace (snd (editBranch e app eid x s c w)) = trace w @ es1 @ es2 @ es3 @ []"
      using e1 e2 e3 by simp
    with e1(2) e2(2) e3(2) None show ?thesis
      by (intro exI [of _ es1] exI [of _ es2] exI [of _ es3] exI [of _ "[]"]) simp
  next
    case (Some updatedData)
    let ?nw = "notifyMovementWebhook e app (Some updatedData) w3"
    obtain es bal n where n: "trace (snd ?nw) = trace w3 @ es"
      "filter is_core es = [PostMovement (movementForm e app updatedData bal n)]
          \<or> filter is_core es = [PostMovement (movementForm e app updatedData bal n),
                Update (updatedData ''id'') Map.empty]"
      using notifyMovementWebhook_trace [of e app updatedData w3] by blast
    have "snd (editBranch e app eid x s c w) = emit LoadDashboard (snd ?nw)
        \<or> snd (editBranch e app eid x s c w) = snd ?nw"
      using g d u r2 Some
      by (cases ?nw) (auto simp add: editBranch_def split: sum.splits)
    then obtain tl where t: "trace (snd (editBranch e app eid x s c w))
        = trace w @ es1 @ es2 @ es3 @ (es @ tl)" and c: "filter is_core tl = []"
    proof
      assume "snd (editBranch e app eid x s c w) = emit LoadDashboard (snd ?nw)"
      then have "trace (snd (editBranch e app eid x s c w))
          = trace w @ es1 @ es2 @ es3 @ (es @ [LoadDashboard])"
        using e1 e2 e3 n(1) by (simp add: trace_emit)
      then show ?thesis using that [of "[LoadDashboard]"] by simp
    next
      assume "snd (editBranch e app eid x s c w) = snd ?nw"
      then have "trace (snd (editBranch e app eid x s c w))
          = trace w @ es1 @ es2 @ es3 @ (es @ [])"
        using e1 e2 e3 n(1) by simp
      then show ?thesis using that [of "[]"] by simp
    qed
    have c': "filter is_core (es @ tl) = filter is_core es" using c by simp
    show ?thesis
      using t e1(2) e2(2) e3(2) n(2) Some c'
      by (intro exI [of _ es1] exI [of _ es2] exI [of _ es3] exI [of _ "es @ tl"])
         (auto simp del: filter_append)
  qed
qed

lemma editBranch_sends_update:
  assumes "client e"
  shows "Update (Some (JStr eid)) (allowedUpdates (editUpdates app x s c))
           \<in> set (added w (snd (editBranch e app eid x s c w)))"
proof -
  obtain old w1 where g: "getMovementById e eid w = (old, w1)"
    by (cases "getMovementById e eid w")
  obtain r2 w2 where d: "(case old of
               None \<Rightarrow> (Inr (), w1)
             | Some om \<Rightarrow> if truthy (om ''idmessage'') then notifyDeletionWebhook e (Some om) w1
                          else (Inr (), w1)) = (r2, w2)"
    by (cases "(case old of
               None \<Rightarrow> (Inr (), w1)
             | Some om \<Rightarrow> if truthy (om ''idmessage'') then notifyDeletionWebhook e (Some om) w1
                          else (Inr (), w1))")
  obtain upd w3 where u: "updateMovement e (Some (JStr eid)) (editUpdates app x s c) w2 = (upd, w3)"
    by (cases "updateMovement e (Some (JStr eid)) (editUpdates app x s c) w2")
  obtain es1 es2 es3 es4 where t:
    "trace (snd (editBranch e app eid x s c w)) = trace w @ es1 @ es2 @ es3 @ es4"
    "filter is_core es3 =
          (if client e then [Update (Some (JStr eid)) (allowedUpdates (editUpdates app x s c))]
           else [])"
    using editBranch_trace [OF g d u] by blast
  from t(2) assms have "Update (Some (JStr eid)) (allowedUpdates (editUpdates app x s c))
      \<in> set (filter is_core es3)" by simp
  then have "Update (Some (JStr eid)) (allowedUpdates (editUpdates app x s c)) \<in> set es3"
    by simp
  moreover have "added w (snd (editBranch e app eid x s c w)) = es1 @ es2 @ es3 @ es4"
    using t(1) by (rule added_append)
  ultimately show ?thesis by simp
qed

text \<open>
  An insert the table accepts stays stored whatever the notification does; the new row is
  returned when the notification returns.
\<close>

lemma createMovement_snd:
  fixes e :: env and w :: world and mv :: obj and uid :: "jsval option"
  defines "n \<equiv> length (trace w)"
  defines "data \<equiv> (column_defaults e ++ insertRow e mv uid n)(''id'' \<mapsto> JStr (new_id e n))"
  defines "w1 \<equiv> emit (Insert (insertRow e mv uid n)) w"
  defines "w2 \<equiv> w1\<lparr>table := (table w1)(new_id e n \<mapsto> data)\<rparr>"
  assumes "client e" and "db e n = DbOk" and "table w (new_id e n) = None"
  shows "\<exists>tl. snd (createMovement e app mv uid w)
      = (snd (notifyMovementWebhook e app (Some data) w2))
          \<lparr>trace := trace (snd (notifyMovementWebhook e app (Some data) w2)) @ tl\<rparr>"
  using assms(5-7) unfolding n_def data_def w1_def w2_def
  apply (simp add: createMovement_def Let_def split: prod.splits sum.splits)
  apply (auto simp: emit_def intro: exI [of _ "[]"] exI [of _ "[Console Error]"])
  done

lemma createMovement_stores:
  assumes "client e" and "db e (length (trace w)) = DbOk"
    and "table w (new_id e (length (trace w))) = None"
  shows "table (snd (createMovement e app mv uid w)) (new_id e (length (trace w))) \<noteq> None"
proof -
  let ?n = "length (trace w)"
  let ?data = "(column_defaults e ++ insertRow e mv uid ?n)(''id'' \<mapsto> JStr (new_id e ?n))"
  let ?w1 = "emit (Insert (insertRow e mv uid ?n)) w"
  let ?w2 = "?w1\<lparr>table := (table ?w1)(new_id e ?n \<mapsto> ?data)\<rparr>"
  have k: "table (snd (notifyMovementWebhook e app (Some ?data) ?w2)) (new_id e ?n) \<noteq> None"
    by (rule notifyMovementWebhook_keeps_rows) simp
  obtain tl where "snd (createMovement e app mv uid w)
      = (snd (notifyMovementWebhook e app (Some ?data) ?w2))
          \<lparr>trace := trace (snd (notifyMovementWebhook e app (Some ?data) ?w2)) @ tl\<rparr>"
    using createMovement_snd [OF assms] by blast
  then show ?thesis using k by simp
qed

lemma createMovement_returns:
  assumes "client e" and "db e (length (trace w)) = DbOk"
    and "table w (new_id e (length (trace w))) = None"
    and "\<And>n. \<not> rejects_nullish (http e n)"
  shows "fst (createMovement e app mv uid w)
           = Some ((column_defaults e ++ insertRow e mv uid (length (trace w)))
                     (''id'' \<mapsto> JStr (new_id e (length (trace w)))))"
proof -
  let ?n = "length (trace w)"
  let ?data = "(column_defaults e ++ insertRow e mv uid ?n)(''id'' \<mapsto> JStr (new_id e ?n))"
  let ?w1 = "emit (Insert (insertRow e mv uid ?n)) w"
  let ?w2 = "?w1\<lparr>table := (table ?w1)(new_id e ?n \<mapsto> ?data)\<rparr>"
  have r: "fst (notifyMovementWebhook e app (Some ?data) ?w2) = Inr ()"
    using assms(4) by (rule notifyMovementWebhook_returns)
  show ?thesis
    using assms(1-3) r
    by (auto simp add: createMovement_def Let_def split: prod.splits sum.splits)
qed

text \<open>
  The verification state of a freshly inserted row is the column default: the row that
  \<^verbatim>\<open>createMovement\<close> inserts has no \<^verbatim>\<open>verified\<close> property.
\<close>

lemma createMovement_verified_default:
  assumes "client e" and "db e (length (trace w)) = DbOk"
    and "table w (new_id e (length (trace w))) = None"
  shows "stored (snd (createMovement e app mv uid w)) (new_id e (length (trace w))) ''verified''
           = column_defaults e ''verified''"
proof -
  let ?n = "length (trace w)"
  let ?data = "(column_defaults e ++ insertRow e mv uid ?n)(''id'' \<mapsto> JStr (new_id e ?n))"
  let ?w1 = "emit (Insert (insertRow e mv uid ?n)) w"
  let ?w2 = "?w1\<lparr>table := (table ?w1)(new_id e ?n \<mapsto> ?data)\<rparr>"
  have s: "stored (snd (notifyMovementWebhook e app (Some ?data) ?w2)) (new_id e ?n) ''verified''
      = stored ?w2 (new_id e ?n) ''verified''"
    by (rule notifyMovementWebhook_stored) simp
  have v: "stored ?w2 (new_id e ?n) ''verified'' = column_defaults e ''verified''"
    by (simp add: stored_def insertRow_def map_add_def)
  obtain tl where "snd (createMovement e app mv uid w)
      = (snd (notifyMovementWebhook e app (Some ?data) ?w2))
          \<lparr>trace := trace (snd (notifyMovementWebhook e app (Some ?data) ?w2)) @ tl\<rparr>"
    using createMovement_snd [OF assms] by blast
  then have "stored (snd (createMovement e app mv uid w))
      = stored (snd (notifyMovementWebhook e app (Some ?data) ?w2))"
    by (simp add: stored_def fun_eq_iff)
  then show ?thesis using s v by simp
qed

text \<open>
  With a valid form, a movement being edited and no file selected, the calls of
  \<^verbatim>\<open>handleFormSubmit\<close> that write or notify are those of the edit branch.
\<close>

lemma editBranch_extends:
  "\<exists>es. trace (snd (editBranch e app eid x s c w)) = trace w @ es"
proof -
  obtain old w1 where g: "getMovementById e eid w = (old, w1)"
    by (cases "getMovementById e eid w")
  obtain r2 w2 where d: "(case old of
               None \<Rightarrow> (Inr (), w1)
             | Some om \<Rightarrow> if truthy (om ''idmessage'') then notifyDeletionWebhook e (Some om) w1
                          else (Inr (), w1)) = (r2, w2)"
    by (cases "(case old of
               None \<Rightarrow> (Inr (), w1)
             | Some om \<Rightarrow> if truthy (om ''idmessage'') then notifyDeletionWebhook e (Some om) w1
                          else (Inr (), w1))")
  obtain upd w3 where u: "updateMovement e (Some (JStr eid)) (editUpdates app x s c) w2 = (upd, w3)"
    by (cases "updateMovement e (Some (JStr eid)) (editUpdates app x s c) w2")
  show ?thesis using editBranch_trace [OF g d u] by blast
qed

lemma handleFormSubmit_edit_core:
  assumes "tipo input = Some t" and "t \<noteq> []" and "\<not> (t = ''EGRESO'' \<and> \<not> isAdmin app)"
    and "monto input = Some x" and "0 < x" and "motivo input = Some s" and "s \<noteq> []"
    and "editingMovementId app = Some eid" and "eid \<noteq> []" and "selectedFile app = None"
  shows "filter is_core (added w (handleFormSubmit e app input w))
       = filter is_core (added w (snd (editBranch e app eid x s JNull w)))"
proof -
  obtain es where es: "trace (snd (editBranch e app eid x s JNull w)) = trace w @ es"
    using editBranch_extends by blast
  have "handleFormSubmit e app input w = snd (editBranch e app eid x s JNull w)
      \<or> handleFormSubmit e app input w = emit (Console Error) (snd (editBranch e app eid x s JNull w))"
    using assms
    by (cases "editBranch e app eid x s JNull w")
       (auto simp: handleFormSubmit_def handleFormSubmit_try_def split: sum.splits)
  then show ?thesis
  proof
    assume "handleFormSubmit e app input w = snd (editBranch e app eid x s JNull w)"
    then show ?thesis by simp
  next
    assume "handleFormSubmit e app input w
        = emit (Console Error) (snd (editBranch e app eid x s JNull w))"
    then show ?thesis using es by (simp add: added_def trace_emit)
  qed
qed

subsection \<open>What \<^verbatim>\<open>updateMovement\<close> forwards\<close>

text \<open>
  C10. Whatever the \<^verbatim>\<open>updates\<close> object holds, the payload \<^verbatim>\<open>updateMovement\<close> passes to
  the table is \<^verbatim>\<open>updates\<close> restricted to \<^verbatim>\<open>monto\<close>, \<^verbatim>\<open>motivo\<close> and
  \<^verbatim>\<open>comprobante_url\<close>; the only call it makes is the update with that payload; any
  other requested field has no effect on the result or on the table; and no column of any
  stored row other than those three (and \<^verbatim>\<open>updated_at\<close>, which the table's own trigger
  sets on every update) changes. In particular \<^verbatim>\<open>verified\<close>, \<^verbatim>\<open>idmessage\<close> and
  \<^verbatim>\<open>remote_jid\<close> cannot be changed through this operation.
\<close>

theorem updateMovement_forwards_allowed_only:
  "allowedUpdates updates = updates |` {''monto'', ''motivo'', ''comprobante_url''}
   \<and> (\<forall>ev \<in> set (added w (snd (updateMovement e ident updates w))).
         ev = Update ident (updates |` {''monto'', ''motivo'', ''comprobante_url''})
         \<or> ev = Console Error)
   \<and> updateMovement e ident (updates |` {''monto'', ''motivo'', ''comprobante_url''}) w
       = updateMovement e ident updates w
   \<and> (\<forall>k col. col \<notin> {''monto'', ''motivo'', ''comprobante_url'', ''updated_at''} \<longrightarrow>
         stored (snd (updateMovement e ident updates w)) k col = stored w k col)"
proof (intro conjI ballI allI impI)
  show "allowedUpdates updates = updates |` {''monto'', ''motivo'', ''comprobante_url''}"
    by (rule allowedUpdates_restrict)
next
  fix ev assume a: "ev \<in> set (added w (snd (updateMovement e ident updates w)))"
  obtain es where es: "trace (snd (updateMovement e ident updates w)) = trace w @ es"
    "set es \<subseteq> {Update ident (allowedUpdates updates), Console Error}"
    using updateMovement_trace [of e ident updates w] by blast
  from es(1) have "added w (snd (updateMovement e ident updates w)) = es"
    by (rule added_append)
  with a es(2) show "ev = Update ident (updates |` {''monto'', ''motivo'', ''comprobante_url''})
         \<or> ev = Console Error"
    by (auto simp: allowedUpdates_restrict)
next
  show "updateMovement e ident (updates |` {''monto'', ''motivo'', ''comprobante_url''}) w
       = updateMovement e ident updates w"
    by (rule updateMovement_restrict)
next
  fix k col assume "col \<notin> {''monto'', ''motivo'', ''comprobante_url'', ''updated_at''}"
  then show "stored (snd (updateMovement e ident updates w)) k col = stored w k col"
    by (rule updateMovement_stored)
qed

theorem updateMovement_forwards_allowed_only_witness:
  "Update (Some (JStr ''m1'')) (requested |` {''monto'', ''motivo'', ''comprobante_url''})
     \<in> set (added world1 (snd (updateMovement env_ok (Some (JStr ''m1'')) requested world1)))
   \<and> (requested |` {''monto'', ''motivo'', ''comprobante_url''}) ''monto'' = Some (JNum 75)
   \<and> (requested |` {''monto'', ''motivo'', ''comprobante_url''}) ''verified'' = None
   \<and> (requested |` {''monto'', ''motivo'', ''comprobante_url''}) ''idmessage'' = None
   \<and> (requested |` {''monto'', ''motivo'', ''comprobante_url''}) ''remote_jid'' = None
   \<and> ''verified'' \<notin> {''monto'', ''motivo'', ''comprobante_url'', ''updated_at''}
   \<and> stored (snd (updateMovement env_ok (Some (JStr ''m1'')) requested world1)) ''m1'' ''verified''
       = Some (JStr ''PENDIENTE'')
   \<and> stored (snd (updateMovement env_ok (Some (JStr ''m1'')) requested world1)) ''m1'' ''idmessage''
       = Some (JStr ''MSG1'')
   \<and> stored (snd (updateMovement env_ok (Some (JStr ''m1'')) requested world1)) ''m1'' ''monto''
       = Some (JNum 75)"
proof -
  have ev: "added world1 (snd (updateMovement env_ok (Some (JStr ''m1'')) requested world1))
        = [Update (Some (JStr ''m1'')) (allowedUpdates requested)]"
    by (simp add: updateMovement_def env_ok_def world1_def Let_def emit_def added_def row_id_def)
  have old: "stored world1 ''m1'' ''verified'' = Some (JStr ''PENDIENTE'')"
    "stored world1 ''m1'' ''idmessage'' = Some (JStr ''MSG1'')"
    by (simp_all add: stored_def world1_def row1_def)
  have new: "stored (snd (updateMovement env_ok (Some (JStr ''m1'')) requested world1)) ''m1'' ''monto''
       = Some (JNum 75)"
    by (simp add: updateMovement_def env_ok_def world1_def Let_def emit_def row_id_def
        stored_def row1_def allowedUpdates_def requested_def map_add_def)
  have r: "(requested |` {''monto'', ''motivo'', ''comprobante_url''}) ''monto'' = Some (JNum 75)"
    "(requested |` {''monto'', ''motivo'', ''comprobante_url''}) ''verified'' = None"
    "(requested |` {''monto'', ''motivo'', ''comprobante_url''}) ''idmessage'' = None"
    "(requested |` {''monto'', ''motivo'', ''comprobante_url''}) ''remote_jid'' = None"
    by (simp_all add: requested_def restrict_map_def)
  note t = updateMovement_forwards_allowed_only [of requested world1 env_ok "Some (JStr ''m1'')"]
  from t have a: "allowedUpdates requested = requested |` {''monto'', ''motivo'', ''comprobante_url''}"
    by blast
  from t have s: "\<And>k col. col \<notin> {''monto'', ''motivo'', ''comprobante_url'', ''updated_at''} \<Longrightarrow>
         stored (snd (updateMovement env_ok (Some (JStr ''m1'')) requested world1)) k col
           = stored world1 k col"
    by blast
  have c1: "''verified'' \<notin> {''monto'', ''motivo'', ''comprobante_url'', ''updated_at''}" by simp
  have c2: "''idmessage'' \<notin> {''monto'', ''motivo'', ''comprobante_url'', ''updated_at''}" by simp
  show ?thesis
    using ev a s [OF c1] s [OF c2] old new r c1 by simp
qed

subsection \<open>Notification failures\<close>

text \<open>
  C8, as stated, fails twice. When the call to the movement webhook rejects with
  \<^verbatim>\<open>null\<close>, the \<^verbatim>\<open>catch\<close> of \<^verbatim>\<open>notifyMovementWebhook\<close> (in both of its versions)
  throws while it reads \<^verbatim>\<open>error.message\<close>: the failure reaches the caller, no warning is
  written, and \<^verbatim>\<open>createMovement\<close> answers \<^verbatim>\<open>null\<close> for a movement that is stored. And a
  failure of the verification or the deletion webhook is written with
  \<^verbatim>\<open>console.error\<close>, not as a warning.
\<close>

theorem notification_failure_counterexample:
  "fst (notifyMovementWebhook env_null admin (Some row1) world1) = Inl TypeError
   \<and> filter (\<lambda>ev. ev = Console Warn)
        (added world1 (snd (notifyMovementWebhook env_null admin (Some row1) world1))) = []
   \<and> notifyMovementWebhook_upload_js env_null (Some row1) world1
       = (Inl TypeError,
          emit (PostMovement [(''tipo'', Some (JStr ''INGRESO'')), (''monto'', Some (JNum 50)),
                  (''motivo'', Some (JStr ''venta'')), (''url'', Some JNull)]) world1)
   \<and> fst (createMovement env_null admin requested (Some (JStr ''u1'')) world1) = None
   \<and> stored (snd (createMovement env_null admin requested (Some (JStr ''u1'')) world1))
        ''m2'' ''monto'' = Some (JNum 75)
   \<and> added world1 (snd (notifyDeletionWebhook env_down (Some row1) world1))
       = [PostDelete (deletionForm row1), Console Error]
   \<and> added world1 (snd (notifyVerificationWebhook env_down (Some row1) world1))
       = [PostVerify (verificationForm row1 ''593999@s.whatsapp.net''), Console Error]"
proof -
  have a: "fst (notifyMovementWebhook env_null admin (Some row1) world1) = Inl TypeError"
    by (simp add: notifyMovementWebhook_def notifyMovementWebhook_try_def getBalanceAfter_def
        env_null_def env_ok_def Let_def)
  have b: "filter (\<lambda>ev. ev = Console Warn)
        (added world1 (snd (notifyMovementWebhook env_null admin (Some row1) world1))) = []"
    by (simp add: notifyMovementWebhook_def notifyMovementWebhook_try_def getBalanceAfter_def
        env_null_def env_ok_def Let_def emit_def added_def world1_def)
  have c: "notifyMovementWebhook_upload_js env_null (Some row1) world1
       = (Inl TypeError,
          emit (PostMovement [(''tipo'', Some (JStr ''INGRESO'')), (''monto'', Some (JNum 50)),
                  (''motivo'', Some (JStr ''venta'')), (''url'', Some JNull)]) world1)"
    by (simp add: notifyMovementWebhook_upload_js_def notifyMovementWebhook_upload_js_try_def
        env_null_def env_ok_def Let_def row1_def js_or_def truthy_simps)
  have d: "fst (createMovement env_null admin requested (Some (JStr ''u1'')) world1) = None"
    by (simp add: createMovement_def notifyMovementWebhook_def notifyMovementWebhook_try_def
        getBalanceAfter_def env_null_def env_ok_def Let_def emit_def world1_def)
  have e: "stored (snd (createMovement env_null admin requested (Some (JStr ''u1'')) world1))
        ''m2'' ''monto'' = Some (JNum 75)"
    by (simp add: createMovement_def notifyMovementWebhook_def notifyMovementWebhook_try_def
        getBalanceAfter_def env_null_def env_ok_def Let_def emit_def world1_def stored_def
        insertRow_def requested_def map_add_def)
  have f: "added world1 (snd (notifyDeletionWebhook env_down (Some row1) world1))
       = [PostDelete (deletionForm row1), Console Error]"
    by (simp add: notifyDeletionWebhook_def notifyDeletionWebhook_try_def env_down_def
        env_ok_def Let_def emit_def added_def world1_def truthy_simps row1_def)
  have g: "added world1 (snd (notifyVerificationWebhook env_down (Some row1) world1))
       = [PostVerify (verificationForm row1 ''593999@s.whatsapp.net''), Console Error]"
    by (simp add: notifyVerificationWebhook_def notifyVerificationWebhook_try_def env_down_def
        env_ok_def Let_def emit_def added_def world1_def truthy_simps row1_def)
  show ?thesis using a b c d e f g by simp
qed

text \<open>
  C8, amended. The verification and the deletion notification never propagate a failure
  to their caller: an exception of their body is caught and written with
  \<^verbatim>\<open>console.error\<close>. The notification of a created or updated movement, in both of its
  versions, does not propagate a failure either as long as no webhook call rejects with
  \<^verbatim>\<open>null\<close> or \<^verbatim>\<open>undefined\<close>: an exception of its body is caught and written with
  \<^verbatim>\<open>console.warn\<close>. No failure of a notification keeps the edit from sending its update
  to the table or undoes an insert the table accepted, and with such webhooks the accepted
  insert is also returned to the caller.
\<close>

theorem notification_failures_are_caught:
  "fst (notifyVerificationWebhook e movement w) = Inr ()
   \<and> fst (notifyDeletionWebhook e movement w) = Inr ()
   \<and> (\<forall>err w'. notifyVerificationWebhook_try e movement w = (Inl err, w') \<longrightarrow>
         notifyVerificationWebhook e movement w = (Inr (), emit (Console Error) w'))
   \<and> (\<forall>err w'. notifyDeletionWebhook_try e movement w = (Inl err, w') \<longrightarrow>
         notifyDeletionWebhook e movement w = (Inr (), emit (Console Error) w'))
   \<and> ((\<forall>n. \<not> rejects_nullish (http e n)) \<longrightarrow>
         fst (notifyMovementWebhook e app movement w) = Inr ()
         \<and> fst (notifyMovementWebhook_upload_js e movement w) = Inr ()
         \<and> (\<forall>err w'. notifyMovementWebhook_try e app movement w = (Inl err, w') \<longrightarrow>
               notifyMovementWebhook e app movement w = (Inr (), emit (Console Warn) w'))
         \<and> (\<forall>err w'. notifyMovementWebhook_upload_js_try e movement w = (Inl err, w') \<longrightarrow>
               notifyMovementWebhook_upload_js e movement w = (Inr (), emit (Console Warn) w')))
   \<and> (client e \<longrightarrow>
         Update (Some (JStr eid)) (allowedUpdates (editUpdates app x s c))
           \<in> set (added w (snd (editBranch e app eid x s c w))))
   \<and> (client e \<and> db e (length (trace w)) = DbOk
        \<and> table w (new_id e (length (trace w))) = None \<longrightarrow>
         table (snd (createMovement e app mv uid w)) (new_id e (length (trace w))) \<noteq> None
         \<and> ((\<forall>n. \<not> rejects_nullish (http e n)) \<longrightarrow>
               fst (createMovement e app mv uid w)
                 = Some ((column_defaults e ++ insertRow e mv uid (length (trace w)))
                           (''id'' \<mapsto> JStr (new_id e (length (trace w)))))))"
proof -
  have v: "fst (notifyVerificationWebhook e movement w) = Inr ()"
    by (rule notifyVerificationWebhook_returns)
  have d: "fst (notifyDeletionWebhook e movement w) = Inr ()"
    by (rule notifyDeletionWebhook_returns)
  have ve: "notifyVerificationWebhook e movement w = (Inr (), emit (Console Error) w')"
    if "notifyVerificationWebhook_try e movement w = (Inl err, w')" for err w'
    using that by (simp add: notifyVerificationWebhook_def)
  have de: "notifyDeletionWebhook e movement w = (Inr (), emit (Console Error) w')"
    if "notifyDeletionWebhook_try e movement w = (Inl err, w')" for err w'
    using that by (simp add: notifyDeletionWebhook_def)
  have m: "fst (notifyMovementWebhook e app movement w) = Inr ()
         \<and> fst (notifyMovementWebhook_upload_js e movement w) = Inr ()
         \<and> (\<forall>err w'. notifyMovementWebhook_try e app movement w = (Inl err, w') \<longrightarrow>
               notifyMovementWebhook e app movement w = (Inr (), emit (Console Warn) w'))
         \<and> (\<forall>err w'. notifyMovementWebhook_upload_js_try e movement w = (Inl err, w') \<longrightarrow>
               notifyMovementWebhook_upload_js e movement w = (Inr (), emit (Console Warn) w'))"
    if p: "\<forall>n. \<not> rejects_nullish (http e n)"
  proof (intro conjI allI impI)
    show "fst (notifyMovementWebhook e app movement w) = Inr ()"
      using p by (intro notifyMovementWebhook_returns) simp
    show "fst (notifyMovementWebhook_upload_js e movement w) = Inr ()"
      using p by (intro notifyMovementWebhook_upload_js_returns) simp
  next
    fix err w' assume t: "notifyMovementWebhook_try e app movement w = (Inl err, w')"
    then have "\<not> nullish err"
      using notifyMovementWebhook_try_nullish [of e app movement w err w'] p by blast
    with t show "notifyMovementWebhook e app movement w = (Inr (), emit (Console Warn) w')"
      by (simp add: notifyMovementWebhook_def)
  next
    fix err w' assume t: "notifyMovementWebhook_upload_js_try e movement w = (Inl err, w')"
    then have "\<not> nullish err"
      using notifyMovementWebhook_upload_js_try_nullish [of e movement w err w'] p by blast
    with t show "notifyMovementWebhook_upload_js e movement w
        = (Inr (), emit (Console Warn) w')"
      by (simp add: notifyMovementWebhook_upload_js_def)
  qed
  have u: "Update (Some (JStr eid)) (allowedUpdates (editUpdates app x s c))
           \<in> set (added w (snd (editBranch e app eid x s c w)))" if "client e"
    using that by (rule editBranch_sends_update)
  have i: "table (snd (createMovement e app mv uid w)) (new_id e (length (trace w))) \<noteq> None
         \<and> ((\<forall>n. \<not> rejects_nullish (http e n)) \<longrightarrow>
               fst (createMovement e app mv uid w)
                 = Some ((column_defaults e ++ insertRow e mv uid (length (trace w)))
                           (''id'' \<mapsto> JStr (new_id e (length (trace w))))))"
    if a: "client e \<and> db e (length (trace w)) = DbOk
        \<and> table w (new_id e (length (trace w))) = None"
  proof (intro conjI impI)
    show "table (snd (createMovement e app mv uid w)) (new_id e (length (trace w))) \<noteq> None"
      using a by (intro createMovement_stores) simp_all
  next
    assume "\<forall>n. \<not> rejects_nullish (http e n)"
    then show "fst (createMovement e app mv uid w)
                 = Some ((column_defaults e ++ insertRow e mv uid (length (trace w)))
                           (''id'' \<mapsto> JStr (new_id e (length (trace w)))))"
      using a by (intro createMovement_returns) simp_all
  qed
  show ?thesis using v d ve de m u i by blast
qed

text \<open>
  Every webhook is unreachable and \<^verbatim>\<open>fetch\<close> rejects with a \<^verbatim>\<open>TypeError\<close> object: each
  notification posts, fails, writes to the console and returns; the edit sends its update
  and the new movement is stored.
\<close>

theorem notification_failures_are_caught_witness:
  "(\<forall>n. \<not> rejects_nullish (http env_down n))
   \<and> added world1 (snd (notifyMovementWebhook env_down admin (Some row1) world1))
       = [GetStatistics,
          PostMovement (movementForm env_down admin row1 (Some (JNum 150)) 1),
          Console Warn]
   \<and> fst (notifyMovementWebhook env_down admin (Some row1) world1) = Inr ()
   \<and> notifyMovementWebhook_upload_js env_down (Some row1) world1
       = (Inr (), emit (Console Warn)
            (emit (PostMovement [(''tipo'', Some (JStr ''INGRESO'')), (''monto'', Some (JNum 50)),
                  (''motivo'', Some (JStr ''venta'')), (''url'', Some JNull)]) world1))
   \<and> notifyVerificationWebhook env_down (Some row1) world1
       = (Inr (), emit (Console Error)
            (emit (PostVerify (verificationForm row1 ''593999@s.whatsapp.net'')) world1))
   \<and> notifyDeletionWebhook env_down (Some row1) world1
       = (Inr (), emit (Console Error) (emit (PostDelete (deletionForm row1)) world1))
   \<and> client env_down
   \<and> Update (Some (JStr ''m1'')) (allowedUpdates (editUpdates editing 75 ''venta'' JNull))
       \<in> set (added world1 (snd (editBranch env_down editing ''m1'' 75 ''venta'' JNull world1)))
   \<and> db env_down (length (trace world1)) = DbOk
   \<and> table world1 (new_id env_down (length (trace world1))) = None
   \<and> table (snd (createMovement env_down admin requested (Some (JStr ''u1'')) world1)) ''m2''
       \<noteq> None
   \<and> fst (createMovement env_down admin requested (Some (JStr ''u1'')) world1) \<noteq> None"
proof -
  have p: "\<forall>n. \<not> rejects_nullish (http env_down n)"
    by (simp add: env_down_def)
  have f1: "notifyMovementWebhook_try env_down admin (Some row1) world1
      = (Inl (Rejected (Some (JObj [(''name'', JStr ''TypeError''),
            (''message'', JStr ''Failed to fetch'')]))),
         emit (PostMovement (movementForm env_down admin row1 (Some (JNum 150)) 1))
           (emit GetStatistics world1))"
    by (simp add: notifyMovementWebhook_try_def getBalanceAfter_def env_down_def env_ok_def
        Let_def emit_def world1_def)
  have f2: "notifyMovementWebhook_upload_js_try env_down (Some row1) world1
      = (Inl (Rejected (Some (JObj [(''name'', JStr ''TypeError''),
            (''message'', JStr ''Failed to fetch'')]))),
         emit (PostMovement [(''tipo'', Some (JStr ''INGRESO'')), (''monto'', Some (JNum 50)),
                  (''motivo'', Some (JStr ''venta'')), (''url'', Some JNull)]) world1)"
    by (simp add: notifyMovementWebhook_upload_js_try_def env_down_def env_ok_def Let_def
        row1_def js_or_def truthy_simps)
  have f3: "notifyVerificationWebhook_try env_down (Some row1) world1
      = (Inl (Rejected (Some (JObj [(''name'', JStr ''TypeError''),
            (''message'', JStr ''Failed to fetch'')]))),
         emit (PostVerify (verificationForm row1 ''593999@s.whatsapp.net'')) world1)"
    by (simp add: notifyVerificationWebhook_try_def env_down_def env_ok_def Let_def row1_def
        truthy_simps)
  have f4: "notifyDeletionWebhook_try env_down (Some row1) world1
      = (Inl (Rejected (Some (JObj [(''name'', JStr ''TypeError''),
            (''message'', JStr ''Failed to fetch'')]))),
         emit (PostDelete (deletionForm row1)) world1)"
    by (simp add: notifyDeletionWebhook_try_def env_down_def env_ok_def Let_def row1_def
        truthy_simps)
  have c: "client env_down" by (simp add: env_down_def env_ok_def)
  have i: "client env_down \<and> db env_down (length (trace world1)) = DbOk
      \<and> table world1 (new_id env_down (length (trace world1))) = None"
    by (simp add: env_down_def env_ok_def world1_def)
  have n: "new_id env_down (length (trace world1)) = ''m2''"
    by (simp add: env_down_def env_ok_def)
  note t = notification_failures_are_caught [of env_down "Some row1" world1 admin "''m1''" 75
      "''venta''" JNull requested "Some (JStr ''u1'')"]
  note t' = notification_failures_are_caught [of env_down "Some row1" world1 editing "''m1''" 75
      "''venta''" JNull requested "Some (JStr ''u1'')"]
  have g1: "notifyMovementWebhook env_down admin (Some row1) world1
       = (Inr (), emit (Console Warn)
            (emit (PostMovement (movementForm env_down admin row1 (Some (JNum 150)) 1))
              (emit GetStatistics world1)))"
    using t p f1 by blast
  have g1': "added world1 (snd (notifyMovementWebhook env_down admin (Some row1) world1))
       = [GetStatistics,
          PostMovement (movementForm env_down admin row1 (Some (JNum 150)) 1),
          Console Warn]"
    unfolding g1 by (simp add: added_def emit_def world1_def)
  have g2: "notifyMovementWebhook_upload_js env_down (Some row1) world1
       = (Inr (), emit (Console Warn)
            (emit (PostMovement [(''tipo'', Some (JStr ''INGRESO'')), (''monto'', Some (JNum 50)),
                  (''motivo'', Some (JStr ''venta'')), (''url'', Some JNull)]) world1))"
    using t p f2 by blast
  have g3: "notifyVerificationWebhook env_down (Some row1) world1
       = (Inr (), emit (Console Error)
            (emit (PostVerify (verificationForm row1 ''593999@s.whatsapp.net'')) world1))"
    using t f3 by blast
  have g4: "notifyDeletionWebhook env_down (Some row1) world1
       = (Inr (), emit (Console Error) (emit (PostDelete (deletionForm row1)) world1))"
    using t f4 by blast
  have g5: "Update (Some (JStr ''m1'')) (allowedUpdates (editUpdates editing 75 ''venta'' JNull))
       \<in> set (added world1 (snd (editBranch env_down editing ''m1'' 75 ''venta'' JNull world1)))"
    using t' c by blast
  have g6: "table (snd (createMovement env_down admin requested (Some (JStr ''u1'')) world1))
       (new_id env_down (length (trace world1))) \<noteq> None"
    using t i by blast
  have g7: "fst (createMovement env_down admin requested (Some (JStr ''u1'')) world1)
       = Some ((column_defaults env_down
                  ++ insertRow env_down requested (Some (JStr ''u1'')) (length (trace world1)))
                 (''id'' \<mapsto> JStr (new_id env_down (length (trace world1)))))"
    using t i p by blast
  show ?thesis
    using p g1 g1' g2 g3 g4 g5 g6 g7 c i n by simp
qed

subsection \<open>The order of the calls of an edit\<close>

text \<open>
  C6, as stated, fails: a movement that has a message id (an external correlation
  reference) but no chat id is edited without any deletion notification. The call site
  tests \<^verbatim>\<open>idmessage\<close> only, and \<^verbatim>\<open>notifyDeletionWebhook\<close> then returns early, with a
  warning, because \<^verbatim>\<open>remote_jid\<close> is missing.
\<close>

theorem edit_without_remote_jid_counterexample:
  "stored world2 ''m1'' ''idmessage'' = Some (JStr ''MSG1'')
   \<and> filter is_PostDelete (added world2 (handleFormSubmit env_ok editing form1 world2)) = []
   \<and> length (filter is_core (added world2 (handleFormSubmit env_ok editing form1 world2))) = 3
   \<and> hd (filter is_core (added world2 (handleFormSubmit env_ok editing form1 world2)))
       = Update (Some (JStr ''m1'')) (allowedUpdates (editUpdates editing 75 ''venta'' JNull))"
  by (simp add: handleFormSubmit_def handleFormSubmit_try_def editBranch_def
      getMovementById_def updateMovement_def row_id_def
      notifyDeletionWebhook_def notifyDeletionWebhook_try_def
      notifyMovementWebhook_def notifyMovementWebhook_try_def getBalanceAfter_def
      allowedUpdates_def editUpdates_def verifiedState_def correlationUpdates_def
      map_add_def Let_def emit_def added_def stored_def truthy_simps
      env_ok_def webhook_answer_def world2_def row2_def row1_def admin_def editing_def
      form1_def)

text \<open>
  C6, amended. The calls of an edit that write or notify are, in this order: first, when
  the movement read at the start of the edit has both a message id and a chat id, the
  deletion notification, carrying the message id, the chat id, the amount and the type of
  that old state (without both ids there is no deletion notification); then the update
  of the table with the editable fields; then, only when that update succeeded, the
  notification of the movement as the table now stores it, with the new amount and the
  new reason, followed at most by the update that notification makes itself. Each call
  is awaited before the next one starts.
\<close>

theorem edit_notifies_in_order:
  assumes "getMovementById e eid w = (Some old, w1)"
  shows "\<exists>rest.
      filter is_core (added w (snd (editBranch e app eid x s c w)))
        = (if truthy (old ''idmessage'') \<and> truthy (old ''remote_jid'')
           then [PostDelete [(''idmessage'', old ''idmessage''),
                             (''numero_destinatario'', old ''remote_jid''),
                             (''id_movimiento'', old ''id''),
                             (''monto'', old ''monto''),
                             (''tipo'', old ''tipo'')]]
           else [])
          @ Update (Some (JStr eid))
              (editUpdates app x s c |` {''monto'', ''motivo'', ''comprobante_url''})
          # rest
      \<and> (fst (updateMovement e (Some (JStr eid)) (editUpdates app x s c)
                (if truthy (old ''idmessage'') then snd (notifyDeletionWebhook e (Some old) w1)
                 else w1)) = None
           \<longrightarrow> rest = [])
      \<and> (\<forall>data w3.
            updateMovement e (Some (JStr eid)) (editUpdates app x s c)
                (if truthy (old ''idmessage'') then snd (notifyDeletionWebhook e (Some old) w1)
                 else w1) = (Some data, w3)
           \<longrightarrow> table w3 eid = Some data
               \<and> data ''monto'' = Some (JNum x) \<and> data ''motivo'' = Some (JStr s)
               \<and> (\<exists>bal n tl.
                     rest = PostMovement (movementForm e app data bal n) # tl
                     \<and> (tl = [] \<or> tl = [Update (data ''id'') Map.empty])
                     \<and> map_of (movementForm e app data bal n) ''monto'' = Some (Some (JNum x))
                     \<and> map_of (movementForm e app data bal n) ''motivo''
                         = Some (Some (JStr s))))"
proof -
  let ?w2 = "if truthy (old ''idmessage'') then snd (notifyDeletionWebhook e (Some old) w1)
             else w1"
  have c: "client e" using getMovementById_Some [OF assms] by simp
  have d: "(case Some old of
               None \<Rightarrow> (Inr (), w1)
             | Some om \<Rightarrow> if truthy (om ''idmessage'') then notifyDeletionWebhook e (Some om) w1
                          else (Inr (), w1)) = (Inr (), ?w2)"
    using notifyDeletionWebhook_returns [of e "Some old" w1] by (simp add: prod_eq_iff)
  obtain upd w3 where u: "updateMovement e (Some (JStr eid)) (editUpdates app x s c) ?w2 = (upd, w3)"
    by (cases "updateMovement e (Some (JStr eid)) (editUpdates app x s c) ?w2")
  obtain es1 es2 es3 es4 where t:
    "trace (snd (editBranch e app eid x s c w)) = trace w @ es1 @ es2 @ es3 @ es4"
    "filter is_core es1 = []"
    "filter is_core es2 = (if truthy (old ''idmessage'') \<and> truthy (old ''remote_jid'')
                          then [PostDelete (deletionForm old)] else [])"
    "filter is_core es3 = [Update (Some (JStr eid)) (allowedUpdates (editUpdates app x s c))]"
    "upd = None \<longrightarrow> filter is_core es4 = []"
    "\<forall>data. upd = Some data \<longrightarrow>
           (\<exists>bal n. filter is_core es4 = [PostMovement (movementForm e app data bal n)]
              \<or> filter is_core es4
                  = [PostMovement (movementForm e app data bal n),
                     Update (data ''id'') Map.empty])"
    using editBranch_trace [OF assms d u] c by auto
  have "added w (snd (editBranch e app eid x s c w)) = es1 @ es2 @ es3 @ es4"
    using t(1) by (rule added_append)
  then have core: "filter is_core (added w (snd (editBranch e app eid x s c w)))
        = (if truthy (old ''idmessage'') \<and> truthy (old ''remote_jid'')
           then [PostDelete [(''idmessage'', old ''idmessage''),
                             (''numero_destinatario'', old ''remote_jid''),
                             (''id_movimiento'', old ''id''),
                             (''monto'', old ''monto''),
                             (''tipo'', old ''tipo'')]]
           else [])
          @ Update (Some (JStr eid))
              (editUpdates app x s c |` {''monto'', ''motivo'', ''comprobante_url''})
          # filter is_core es4"
    using t(2,3,4) by (simp add: allowedUpdates_restrict deletionForm_def)
  have none: "filter is_core es4 = []" if "fst (updateMovement e (Some (JStr eid))
      (editUpdates app x s c) ?w2) = None"
    using that u t(5) by simp
  have some: "table v3 eid = Some data
               \<and> data ''monto'' = Some (JNum x) \<and> data ''motivo'' = Some (JStr s)
               \<and> (\<exists>bal n tl.
                     filter is_core es4 = PostMovement (movementForm e app data bal n) # tl
                     \<and> (tl = [] \<or> tl = [Update (data ''id'') Map.empty])
                     \<and> map_of (movementForm e app data bal n) ''monto'' = Some (Some (JNum x))
                     \<and> map_of (movementForm e app data bal n) ''motivo''
                         = Some (Some (JStr s)))"
    if h: "updateMovement e (Some (JStr eid)) (editUpdates app x s c) ?w2 = (Some data, v3)"
    for data v3
  proof -
    obtain row where r: "table ?w2 eid = Some row"
      "data = (row ++ allowedUpdates (editUpdates app x s c))
                (''updated_at'' \<mapsto> JStr (clock e (length (trace ?w2))))"
      "table v3 eid = Some data"
      using updateMovement_Some [OF h] by blast
    have m: "data ''monto'' = Some (JNum x)" "data ''motivo'' = Some (JStr s)"
      by (simp_all add: r(2) map_add_def editUpdates_fields)
    have f: "map_of (movementForm e app data bal n) ''monto'' = Some (Some (JNum x))"
      "map_of (movementForm e app data bal n) ''motivo'' = Some (Some (JStr s))" for bal n
      by (simp_all add: movementForm_fields m js_or_same)
    from h u have "upd = Some data" by simp
    with t(6) obtain bal n where
      "filter is_core es4 = [PostMovement (movementForm e app data bal n)]
         \<or> filter is_core es4
             = [PostMovement (movementForm e app data bal n), Update (data ''id'') Map.empty]"
      by blast
    then have "\<exists>tl. filter is_core es4 = PostMovement (movementForm e app data bal n) # tl
        \<and> (tl = [] \<or> tl = [Update (data ''id'') Map.empty])"
      by auto
    then show ?thesis using r(3) m f by blast
  qed
  show ?thesis
    using core none some by (intro exI [of _ "filter is_core es4"]) blast
qed

text \<open>
  The movement \<open>m1\<close> (an income of 50, notified before) is edited to 75: the old message
  is retracted, the row is updated, the new state is notified with the amount 75 and the
  balance 150. And the same edit when the stored movement has no chat id: no retraction.
\<close>

theorem edit_notifies_in_order_witness:
  "getMovementById env_ok ''m1'' world1 = (Some row1, emit (SelectById ''m1'') world1)
   \<and> filter is_core (added world1 (handleFormSubmit env_ok editing form1 world1))
       = [PostDelete [(''idmessage'', Some (JStr ''MSG1'')),
                      (''numero_destinatario'', Some (JStr ''593999@s.whatsapp.net'')),
                      (''id_movimiento'', Some (JStr ''m1'')),
                      (''monto'', Some (JNum 50)),
                      (''tipo'', Some (JStr ''INGRESO''))],
          Update (Some (JStr ''m1'')) [''monto'' \<mapsto> JNum 75, ''motivo'' \<mapsto> JStr ''venta''],
          PostMovement [(''id'', Some (JStr ''m1'')),
                        (''tipo'', Some (JStr ''INGRESO'')),
                        (''monto'', Some (JNum 75)),
                        (''saldo_despues'', Some (JNum 150)),
                        (''motivo'', Some (JStr ''venta'')),
                        (''url'', Some (JStr [])),
                        (''fecha'', Some (JStr ''2024-01-01T00:00:00.000Z'')),
                        (''usuario_nombre'', Some (JStr ''Ana'')),
                        (''usuario_email'', Some (JStr [])),
                        (''remote_jid'', Some (JStr ''593999@s.whatsapp.net''))],
          Update (Some (JStr ''m1'')) Map.empty]
   \<and> take 2 (filter is_core (added world1 (handleFormSubmit env_ok editing form1 world1)))
       = [PostDelete [(''idmessage'', Some (JStr ''MSG1'')),
                      (''numero_destinatario'', Some (JStr ''593999@s.whatsapp.net'')),
                      (''id_movimiento'', Some (JStr ''m1'')),
                      (''monto'', Some (JNum 50)),
                      (''tipo'', Some (JStr ''INGRESO''))],
          Update (Some (JStr ''m1''))
            (editUpdates editing 75 ''venta'' JNull |` {''monto'', ''motivo'', ''comprobante_url''})]
   \<and> getMovementById env_ok ''m1'' world2 = (Some row2, emit (SelectById ''m1'') world2)
   \<and> take 1 (filter is_core (added world2 (handleFormSubmit env_ok editing form1 world2)))
       = [Update (Some (JStr ''m1''))
            (editUpdates editing 75 ''venta'' JNull |` {''monto'', ''motivo'', ''comprobante_url''})]"
proof -
  have h1: "getMovementById env_ok ''m1'' world1 = (Some row1, emit (SelectById ''m1'') world1)"
    by (simp add: getMovementById_def env_ok_def world1_def Let_def emit_def)
  have h2: "getMovementById env_ok ''m1'' world2 = (Some row2, emit (SelectById ''m1'') world2)"
    by (simp add: getMovementById_def env_ok_def world2_def Let_def emit_def)
  have r1: "truthy (row1 ''idmessage'') \<and> truthy (row1 ''remote_jid'')"
    "row1 ''idmessage'' = Some (JStr ''MSG1'')"
    "row1 ''remote_jid'' = Some (JStr ''593999@s.whatsapp.net'')"
    "row1 ''id'' = Some (JStr ''m1'')" "row1 ''monto'' = Some (JNum 50)"
    "row1 ''tipo'' = Some (JStr ''INGRESO'')"
    by (simp_all add: row1_def truthy_simps)
  have r2: "\<not> (truthy (row2 ''idmessage'') \<and> truthy (row2 ''remote_jid''))"
    by (simp add: row2_def row1_def truthy_simps)
  have k: "filter is_core (added w (handleFormSubmit env_ok editing form1 w))
       = filter is_core (added w (snd (editBranch env_ok editing ''m1'' 75 ''venta'' JNull w)))"
    for w
    using handleFormSubmit_edit_core [where input = form1 and t = "''INGRESO''" and app = editing
        and x = 75 and s = "''venta''" and eid = "''m1''" and e = env_ok and w = w]
    by (simp add: form1_def editing_def admin_def)
  from edit_notifies_in_order [OF h1, of editing 75 "''venta''" JNull]
  obtain rest where "filter is_core
        (added world1 (snd (editBranch env_ok editing ''m1'' 75 ''venta'' JNull world1)))
        = (if truthy (row1 ''idmessage'') \<and> truthy (row1 ''remote_jid'')
           then [PostDelete [(''idmessage'', row1 ''idmessage''),
                             (''numero_destinatario'', row1 ''remote_jid''),
                             (''id_movimiento'', row1 ''id''),
                             (''monto'', row1 ''monto''),
                             (''tipo'', row1 ''tipo'')]]
           else [])
          @ Update (Some (JStr ''m1''))
              (editUpdates editing 75 ''venta'' JNull |` {''monto'', ''motivo'', ''comprobante_url''})
          # rest" by blast
  then have a: "take 2 (filter is_core (added world1 (handleFormSubmit env_ok editing form1 world1)))
       = [PostDelete [(''idmessage'', Some (JStr ''MSG1'')),
                      (''numero_destinatario'', Some (JStr ''593999@s.whatsapp.net'')),
                      (''id_movimiento'', Some (JStr ''m1'')),
                      (''monto'', Some (JNum 50)),
                      (''tipo'', Some (JStr ''INGRESO''))],
          Update (Some (JStr ''m1''))
            (editUpdates editing 75 ''venta'' JNull |` {''monto'', ''motivo'', ''comprobante_url''})]"
    using r1 by (simp add: k)
  from edit_notifies_in_order [OF h2, of editing 75 "''venta''" JNull]
  obtain rest' where "filter is_core
        (added world2 (snd (editBranch env_ok editing ''m1'' 75 ''venta'' JNull world2)))
        = (if truthy (row2 ''idmessage'') \<and> truthy (row2 ''remote_jid'')
           then [PostDelete [(''idmessage'', row2 ''idmessage''),
                             (''numero_destinatario'', row2 ''remote_jid''),
                             (''id_movimiento'', row2 ''id''),
                             (''monto'', row2 ''monto''),
                             (''tipo'', row2 ''tipo'')]]
           else [])
          @ Update (Some (JStr ''m1''))
              (editUpdates editing 75 ''venta'' JNull |` {''monto'', ''motivo'', ''comprobante_url''})
          # rest'" by blast
  then have b: "take 1 (filter is_core (added world2 (handleFormSubmit env_ok editing form1 world2)))
       = [Update (Some (JStr ''m1''))
            (editUpdates editing 75 ''venta'' JNull |` {''monto'', ''motivo'', ''comprobante_url''})]"
    using r2 by (simp add: k)
  have full: "filter is_core (added world1 (handleFormSubmit env_ok editing form1 world1))
       = [PostDelete [(''idmessage'', Some (JStr ''MSG1'')),
                      (''numero_destinatario'', Some (JStr ''593999@s.whatsapp.net'')),
                      (''id_movimiento'', Some (JStr ''m1'')),
                      (''monto'', Some (JNum 50)),
                      (''tipo'', Some (JStr ''INGRESO''))],
          Update (Some (JStr ''m1'')) [''monto'' \<mapsto> JNum 75, ''motivo'' \<mapsto> JStr ''venta''],
          PostMovement [(''id'', Some (JStr ''m1'')),
                        (''tipo'', Some (JStr ''INGRESO'')),
                        (''monto'', Some (JNum 75)),
                        (''saldo_despues'', Some (JNum 150)),
                        (''motivo'', Some (JStr ''venta'')),
                        (''url'', Some (JStr [])),
                        (''fecha'', Some (JStr ''2024-01-01T00:00:00.000Z'')),
                        (''usuario_nombre'', Some (JStr ''Ana'')),
                        (''usuario_email'', Some (JStr [])),
                        (''remote_jid'', Some (JStr ''593999@s.whatsapp.net''))],
          Update (Some (JStr ''m1'')) Map.empty]"
    by (simp add: handleFormSubmit_def handleFormSubmit_try_def editBranch_def
      getMovementById_def updateMovement_def row_id_def
      notifyDeletionWebhook_def notifyDeletionWebhook_try_def deletionForm_def
      notifyMovementWebhook_def notifyMovementWebhook_try_def getBalanceAfter_def
      movementForm_def opt_prop_def
      allowedUpdates_def editUpdates_def verifiedState_def correlationUpdates_def
      map_add_def Let_def emit_def added_def truthy_simps js_or_def
      env_ok_def webhook_answer_def world1_def row1_def admin_def editing_def form1_def)
  show ?thesis using h1 h2 a b full by simp
qed

subsection \<open>The verification state of a new movement\<close>

text \<open>
  C3. The form handler computes \<^verbatim>\<open>VERIFICADO\<close> for an administrator and
  \<^verbatim>\<open>PENDIENTE\<close> otherwise and hands it to \<^verbatim>\<open>createMovement\<close>, but the row that
  \<^verbatim>\<open>createMovement\<close> inserts has no \<^verbatim>\<open>verified\<close> property. On a table whose column
  default is \<^verbatim>\<open>PENDIENTE\<close>, the movement an administrator creates is stored as
  \<^verbatim>\<open>PENDIENTE\<close>, exactly as the one a non-administrator creates; on a table without a
  default, the movement a non-administrator creates is stored with no verification state.
\<close>

theorem create_drops_verified:
  "verifiedState admin = JStr ''VERIFICADO''
   \<and> map (\<lambda>p. p ''verified'')
         (insert_payloads (added world1 (handleFormSubmit env_ok admin form1 world1))) = [None]
   \<and> map (\<lambda>p. p ''monto'')
         (insert_payloads (added world1 (handleFormSubmit env_ok admin form1 world1)))
       = [Some (JNum 75)]
   \<and> stored (handleFormSubmit env_ok admin form1 world1) ''m2'' ''verified''
       = Some (JStr ''PENDIENTE'')
   \<and> stored (handleFormSubmit env_ok cashier form1 world1) ''m2'' ''verified''
       = Some (JStr ''PENDIENTE'')
   \<and> stored (handleFormSubmit env_ok admin form1 world1) ''m2'' ''motivo''
       = Some (JStr ''venta'')
   \<and> verifiedState cashier = JStr ''PENDIENTE''
   \<and> stored (handleFormSubmit env_plain cashier form1 world1) ''m2'' ''verified'' = None
   \<and> stored (handleFormSubmit env_plain cashier form1 world1) ''m2'' ''motivo''
       = Some (JStr ''venta'')"
  by (simp add: handleFormSubmit_def handleFormSubmit_try_def createBranch_def
      createMovement_def insertRow_def updateMovement_def row_id_def
      notifyMovementWebhook_def notifyMovementWebhook_try_def getBalanceAfter_def
      allowedUpdates_def verifiedState_def correlationUpdates_def
      map_add_def Let_def emit_def added_def stored_def truthy_simps js_or_def
      env_ok_def env_plain_def webhook_answer_def world1_def row1_def admin_def cashier_def
      form1_def)

subsection \<open>The identifiers returned by the movement webhook\<close>

text \<open>
  C7. After a successful edit the new state is notified, and the webhook answers with a
  new message id. \<^verbatim>\<open>notifyMovementWebhook\<close> passes it to \<^verbatim>\<open>updateMovement\<close>, which
  forwards neither \<^verbatim>\<open>idmessage\<close> nor \<^verbatim>\<open>remote_jid\<close>: the payload of that last update
  is empty and the stored movement keeps the message id it had before the edit.
\<close>

theorem edit_drops_correlation_ids:
  "stored world1 ''m1'' ''idmessage'' = Some (JStr ''MSG1'')
   \<and> correlationUpdates webhook_answer ''idmessage'' = Some (JStr ''MSG2'')
   \<and> length (filter is_core (added world1 (handleFormSubmit env_ok editing form1 world1))) = 4
   \<and> last (added world1 (handleFormSubmit env_ok editing form1 world1)) = LoadDashboard
   \<and> last (filter is_core (added world1 (handleFormSubmit env_ok editing form1 world1)))
       = Update (Some (JStr ''m1'')) Map.empty
   \<and> stored (handleFormSubmit env_ok editing form1 world1) ''m1'' ''monto'' = Some (JNum 75)
   \<and> stored (handleFormSubmit env_ok editing form1 world1) ''m1'' ''idmessage''
       = Some (JStr ''MSG1'')
   \<and> stored (handleFormSubmit env_ok editing form1 world1) ''m1'' ''idmessage''
       \<noteq> Some (JStr ''MSG2'')"
  by (simp add: handleFormSubmit_def handleFormSubmit_try_def editBranch_def
      getMovementById_def updateMovement_def row_id_def
      notifyDeletionWebhook_def notifyDeletionWebhook_try_def
      notifyMovementWebhook_def notifyMovementWebhook_try_def getBalanceAfter_def
      allowedUpdates_def editUpdates_def verifiedState_def correlationUpdates_def
      map_add_def Let_def emit_def added_def stored_def truthy_simps js_or_def
      env_ok_def webhook_answer_def world1_def row1_def admin_def editing_def form1_def)

subsection \<open>Verifying a movement\<close>

text \<open>
  Whatever the collaborators answer, a run of \<^verbatim>\<open>handleVerifyMovement\<close> leaves the stored
  \<^verbatim>\<open>verified\<close> column of every row as it was.
\<close>

lemma handleVerifyMovement_stored_verified:
  "stored (handleVerifyMovement e app i w) k ''verified'' = stored w k ''verified''"
proof -
  have u: "\<And>j p w'. stored (snd (updateMovement e j p w')) k ''verified'' = stored w' k ''verified''"
    by (rule updateMovement_stored) simp
  have g: "\<And>w'. stored (snd (getMovementById e i w')) = stored w'"
    by (simp add: stored_def fun_eq_iff getMovementById_table)
  have n: "\<And>m w'. stored (snd (notifyVerificationWebhook e m w')) = stored w'"
    by (simp add: stored_def fun_eq_iff notifyVerificationWebhook_table)
  have t: "\<And>w'. stored (snd (handleVerifyMovement_try e i w')) k ''verified'' = stored w' k ''verified''"
    apply (auto simp: handleVerifyMovement_try_def stored_emit
        split: prod.splits option.splits sum.splits if_splits)
    apply (metis g n u snd_conv)+
    done
  show ?thesis
    apply (auto simp: handleVerifyMovement_def stored_emit split: option.splits prod.splits sum.splits)
    apply (metis t snd_conv stored_emit)+
    done
qed

text \<open>
  C4. The claim has a verified movement after each of the two runs. The handler asks
  \<^verbatim>\<open>updateMovement\<close> for \<^verbatim>\<open>{ verified: 'VERIFICADO' }\<close>, and \<^verbatim>\<open>updateMovement\<close> forwards
  only \<^verbatim>\<open>monto\<close>, \<^verbatim>\<open>motivo\<close> and \<^verbatim>\<open>comprobante_url\<close>: the payload it sends is empty. With
  a table that accepts that update, the pending movement \<open>m1\<close> is still \<^verbatim>\<open>PENDIENTE\<close>
  after one run and after two, although each run goes on to notify the verification;
  with a table that answers it with an error, the run stops there, and the movement is
  \<^verbatim>\<open>PENDIENTE\<close> as well.
\<close>

theorem verify_leaves_movement_pending:
  "stored world1 ''m1'' ''verified'' = Some (JStr ''PENDIENTE'')
   \<and> filter is_core (added world1 (handleVerifyMovement env_ok admin ''m1'' world1))
       = [Update (Some (JStr ''m1'')) Map.empty,
          PostVerify [(''idmessage'', Some (JStr ''MSG1'')),
                      (''numero_destinatario'', Some (JStr ''+593999'')),
                      (''id_movimiento'', Some (JStr ''m1'')),
                      (''monto'', Some (JNum 50)),
                      (''tipo'', Some (JStr ''INGRESO''))]]
   \<and> stored (handleVerifyMovement env_ok admin ''m1'' world1) ''m1'' ''verified''
       = Some (JStr ''PENDIENTE'')
   \<and> stored (handleVerifyMovement env_ok admin ''m1''
               (handleVerifyMovement env_ok admin ''m1'' world1)) ''m1'' ''verified''
       = Some (JStr ''PENDIENTE'')
   \<and> added world1 (handleVerifyMovement env_strict admin ''m1'' world1)
       = [Confirm, SelectById ''m1'', Update (Some (JStr ''m1'')) Map.empty, Console Error]
   \<and> stored (handleVerifyMovement env_strict admin ''m1'' world1) ''m1'' ''verified''
       = Some (JStr ''PENDIENTE'')"
proof -
  have a: "stored world1 ''m1'' ''verified'' = Some (JStr ''PENDIENTE'')"
    by (simp add: stored_def world1_def row1_def)
  have b: "filter is_core (added world1 (handleVerifyMovement env_ok admin ''m1'' world1))
       = [Update (Some (JStr ''m1'')) Map.empty,
          PostVerify [(''idmessage'', Some (JStr ''MSG1'')),
                      (''numero_destinatario'', Some (JStr ''+593999'')),
                      (''id_movimiento'', Some (JStr ''m1'')),
                      (''monto'', Some (JNum 50)),
                      (''tipo'', Some (JStr ''INGRESO''))]]"
    by (simp add: handleVerifyMovement_def handleVerifyMovement_try_def
      getMovementById_def updateMovement_def row_id_def
      notifyVerificationWebhook_def notifyVerificationWebhook_try_def verificationForm_def
      phone_of_def
      allowedUpdates_def map_add_def Let_def emit_def added_def truthy_simps
      env_ok_def webhook_answer_def world1_def row1_def admin_def)
  have c: "stored (handleVerifyMovement env_ok admin ''m1'' world1) ''m1'' ''verified''
       = Some (JStr ''PENDIENTE'')"
    "stored (handleVerifyMovement env_ok admin ''m1''
               (handleVerifyMovement env_ok admin ''m1'' world1)) ''m1'' ''verified''
       = Some (JStr ''PENDIENTE'')"
    by (simp_all add: handleVerifyMovement_def handleVerifyMovement_try_def
      getMovementById_def updateMovement_def row_id_def
      notifyVerificationWebhook_def notifyVerificationWebhook_try_def
      allowedUpdates_def map_add_def Let_def emit_def added_def stored_def truthy_simps
      env_ok_def webhook_answer_def world1_def row1_def admin_def)
  have d: "added world1 (handleVerifyMovement env_strict admin ''m1'' world1)
       = [Confirm, SelectById ''m1'', Update (Some (JStr ''m1'')) Map.empty, Console Error]"
    "stored (handleVerifyMovement env_strict admin ''m1'' world1) ''m1'' ''verified''
       = Some (JStr ''PENDIENTE'')"
    by (simp_all add: handleVerifyMovement_def handleVerifyMovement_try_def
      getMovementById_def updateMovement_def row_id_def
      allowedUpdates_def map_add_def Let_def emit_def added_def stored_def truthy_simps
      env_strict_def env_ok_def webhook_answer_def world1_def row1_def admin_def)
  show ?thesis using a b c d by simp
qed

end
